theory Spec2Isabelle
  imports Complex_Main "HOL-Library.Code_Target_Numeral"
begin

section \<open>JavaScript numbers\<close>

text \<open>
  Both scripts compute with the TypeScript type \<open>number\<close>, the IEEE 754 binary64
  format. A number is NaN, an infinity, negative zero, or a finite value; \<open>Finite 0\<close>
  is positive zero and \<open>Finite r\<close> carries the exact rational value of a finite double.
  Every arithmetic operator computes the exact result and rounds it once, to the nearest
  representable value, ties to the even significand (53 significant bits, exponents of the
  unit in the last place between \<open>-1074\<close> and \<open>971\<close>).
\<close>

datatype number = NaN | PosInfinity | NegInfinity | NegZero | Finite rat

fun bit_length :: "nat \<Rightarrow> nat" where
  "bit_length n = (if n = 0 then 0 else Suc (bit_length (n div 2)))"

declare bit_length.simps [simp del]

definition pow2 :: "int \<Rightarrow> rat" where
  "pow2 e = (if 0 \<le> e then 2 ^ nat e else 1 / 2 ^ nat (- e))"

text \<open>\<open>ilog2 q\<close> is the binary exponent of \<open>q \<noteq> 0\<close>: \<open>2 ^ e \<le> |q| < 2 ^ (e + 1)\<close>.\<close>

definition ilog2 :: "rat \<Rightarrow> int" where
  "ilog2 q = (let (a, b) = quotient_of \<bar>q\<bar>;
                 d = int (bit_length (nat a)) - int (bit_length (nat b))
             in if pow2 d \<le> \<bar>q\<bar> then d else d - 1)"

definition round_half_even :: "rat \<Rightarrow> int" where
  "round_half_even m =
     (let f = \<lfloor>m\<rfloor>; r = m - of_int f
      in if r < 1 / 2 then f else if 1 / 2 < r then f + 1 else if even f then f else f + 1)"

definition round_number :: "rat \<Rightarrow> number" where
  "round_number q =
     (if q = 0 then Finite 0
      else let u = max (ilog2 q - 52) (- 1074);
               r = of_int (round_half_even (\<bar>q\<bar> / pow2 u)) * pow2 u
           in if pow2 1024 \<le> r then (if q < 0 then NegInfinity else PosInfinity)
              else if r = 0 then (if q < 0 then NegZero else Finite 0)
              else Finite (if q < 0 then - r else r))"

definition is_inf :: "number \<Rightarrow> bool" where
  "is_inf x = (x = PosInfinity \<or> x = NegInfinity)"

definition is_zero :: "number \<Rightarrow> bool" where
  "is_zero x = (x = NegZero \<or> x = Finite 0)"

fun val :: "number \<Rightarrow> rat" where
  "val (Finite r) = r"
| "val _ = 0"

fun sign :: "number \<Rightarrow> bool" where
  "sign NegInfinity = True"
| "sign NegZero = True"
| "sign (Finite r) = (r < 0)"
| "sign _ = False"

definition signed_zero :: "bool \<Rightarrow> number" where
  "signed_zero s = (if s then NegZero else Finite 0)"

definition signed_inf :: "bool \<Rightarrow> number" where
  "signed_inf s = (if s then NegInfinity else PosInfinity)"

text \<open>The operator \<open>+\<close> on numbers.\<close>

definition fadd :: "number \<Rightarrow> number \<Rightarrow> number" where
  "fadd x y =
     (if x = NaN \<or> y = NaN then NaN
      else if is_inf x then (if is_inf y \<and> x \<noteq> y then NaN else x)
      else if is_inf y then y
      else if is_zero x then
        (if is_zero y then (if x = NegZero \<and> y = NegZero then NegZero else Finite 0) else y)
      else if is_zero y then x
      else round_number (val x + val y))"

fun fneg :: "number \<Rightarrow> number" where
  "fneg NaN = NaN"
| "fneg PosInfinity = NegInfinity"
| "fneg NegInfinity = PosInfinity"
| "fneg NegZero = Finite 0"
| "fneg (Finite r) = (if r = 0 then NegZero else Finite (- r))"

text \<open>The operator \<open>-\<close> on numbers.\<close>

definition fsub :: "number \<Rightarrow> number \<Rightarrow> number" where
  "fsub x y = fadd x (fneg y)"

text \<open>The operator \<open>/\<close> on numbers.\<close>

definition fdiv :: "number \<Rightarrow> number \<Rightarrow> number" where
  "fdiv x y =
     (if x = NaN \<or> y = NaN then NaN
      else if is_inf x then (if is_inf y then NaN else signed_inf (sign x \<noteq> sign y))
      else if is_inf y then signed_zero (sign x \<noteq> sign y)
      else if is_zero y then (if is_zero x then NaN else signed_inf (sign x \<noteq> sign y))
      else if is_zero x then signed_zero (sign x \<noteq> sign y)
      else round_number (val x / val y))"

text \<open>The operator \<open>===\<close> on numbers: NaN equals nothing, the two zeros are equal.\<close>

definition strict_eq :: "number \<Rightarrow> number \<Rightarrow> bool" where
  "strict_eq x y = (x \<noteq> NaN \<and> y \<noteq> NaN \<and> (x = y \<or> (is_zero x \<and> is_zero y)))"

text \<open>
  \<open>Math.round\<close>: the closest integral number, a tie going towards \<open>+\<infinity>\<close>; a negative
  argument that rounds to zero gives negative zero.
\<close>

fun Math_round :: "number \<Rightarrow> number" where
  "Math_round (Finite r) =
     (let n = \<lfloor>r + 1 / 2\<rfloor> in if n = 0 \<and> r < 0 then NegZero else Finite (of_int n))"
| "Math_round x = x"

section \<open>Dates\<close>

text \<open>
  A \<open>Date\<close> object is its time value: milliseconds since the epoch, or \<open>None\<close> for
  an invalid date (time value NaN). Parsing a date string is the host's \<open>Date.parse\<close>,
  which is implementation-defined outside the ISO format; it is a parameter
  \<open>Date_parse\<close> of the functions that call it (\<open>None\<close> for NaN). A \<open>Date\<close> is
  mutable in the source, but every \<open>Date\<close> that is mutated there is a fresh copy
  (\<open>new Date(endDate)\<close>), so the model passes time values.

  The two calls \<open>date.setUTCDate(date.getUTCDate() - i)\<close> move a valid date back by
  \<open>i\<close> whole days, keeping the time within the day: \<open>setUTCDate\<close> builds the day
  number from the year and month of the date and the given day of the month, so the new
  day number is the old one minus \<open>i\<close>. An invalid date stays invalid.
\<close>

type_synonym Date = "int option"

definition msPerDay :: int where
  "msPerDay = 86400000"

definition TimeClip :: "int \<Rightarrow> Date" where
  "TimeClip t = (if \<bar>t\<bar> \<le> 8640000000000000 then Some t else None)"

definition new_Date :: "(string \<Rightarrow> int option) \<Rightarrow> string \<Rightarrow> Date" where
  "new_Date Date_parse s = (case Date_parse s of None \<Rightarrow> None | Some t \<Rightarrow> TimeClip t)"

definition setUTCDate_back :: "Date \<Rightarrow> nat \<Rightarrow> Date" where
  "setUTCDate_back d i = (case d of None \<Rightarrow> None | Some t \<Rightarrow> TimeClip (t - int i * msPerDay))"

definition getTime :: "Date \<Rightarrow> number" where
  "getTime d = (case d of None \<Rightarrow> NaN | Some t \<Rightarrow> Finite (of_int t))"

section \<open>The DefiLlama response and the constants\<close>

text \<open>
  The interfaces \<open>TvlDataItem\<close>, \<open>ChainTvls\<close> and \<open>DefiLlamaApiResponse\<close>. An
  object with string keys is the list of its properties in the order \<open>for ... in\<close>
  enumerates them; the keys of an object are distinct, so \<open>data.chainTvls[chain]\<close> is the
  entry enumerated with the key \<open>chain\<close>. The functions \<open>getTvlOnDate\<close> and
  \<open>calculateTrailingAverageTvl\<close> of the two scripts are given first on a response of
  these interfaces, the type their signatures declare, where no access can throw; the
  section on the response as it arrives gives them on what the unchecked cast of
  \<open>fetchProtocolData\<close> lets through, with the accesses that throw, and \<open>main\<close> runs
  on those.
\<close>

record TvlDataItem =
  date :: number
  totalLiquidityUSD :: number

record ChainTvl =
  tvl :: "TvlDataItem list"

record DefiLlamaApiResponse =
  chainTvls :: "(string \<times> ChainTvl) list"

definition MAJOR_SUPERCHAIN_L2S :: "string set" where
  "MAJOR_SUPERCHAIN_L2S =
     {''BOB'', ''Base'', ''Ink'', ''Lisk'', ''Mode'', ''Optimism'', ''OP Mainnet'',
      ''Polynomial'', ''Soneium'', ''Swellchain'', ''Unichain'', ''World Chain''}"

definition METRIC_START_DATE :: string where
  "METRIC_START_DATE = ''2025-03-20''"

definition METRIC_END_DATE :: string where
  "METRIC_END_DATE = ''2025-06-12''"

definition TRAILING_DAYS :: nat where
  "TRAILING_DAYS = 7"

text \<open>\<open>PROJECTS\<close> of \<open>node/index.ts\<close>: project name and DefiLlama slug.\<close>

definition PROJECTS :: "(string \<times> string) list" where
  "PROJECTS =
     [(''Rocket Pool'', ''rocket-pool''), (''SuperForm'', ''superform''),
      (''Avantis'', ''avantis''), (''Polynomial'', ''polynomial-protocol''),
      (''Extra Finance'', ''extra-finance''), (''Gyroscope'', ''gyroscope-protocol''),
      (''Reservoir'', ''reservoir-protocol''), (''QiDAO'', ''qidao''),
      (''Silo'', ''silo-finance''), (''Exactly'', ''exactly''),
      (''Ionic Protocol'', ''ionic-protocol''), (''Ironclad Finance'', ''ironclad-finance''),
      (''Lets Get HAI'', ''lets-get-hai''), (''Maverick Protocol'', ''maverick-protocol''),
      (''Metronome'', ''metronome''), (''Overnight Finance'', ''overnight-finance''),
      (''Peapods Finance'', ''peapods-finance''), (''Sushi'', ''sushi''),
      (''SynFutures'', ''synfutures''), (''Thales'', ''thales''),
      (''TLX Finance'', ''tlx-finance'')]"

text \<open>\<open>PROJECTS\<close> of the second script, which adds Balancer and Beets.\<close>

definition PROJECTS_csv :: "(string \<times> string) list" where
  "PROJECTS_csv =
     [(''Rocket Pool'', ''rocket-pool''), (''SuperForm'', ''superform''),
      (''Balancer'', ''balancer''), (''Beets'', ''beets''),
      (''Avantis'', ''avantis''), (''Polynomial'', ''polynomial-protocol''),
      (''Extra Finance'', ''extra-finance''), (''Gyroscope'', ''gyroscope-protocol''),
      (''Reservoir'', ''reservoir-protocol''), (''QiDAO'', ''qidao''),
      (''Silo'', ''silo-finance''), (''Exactly'', ''exactly''),
      (''Ionic Protocol'', ''ionic-protocol''), (''Ironclad Finance'', ''ironclad-finance''),
      (''Lets Get HAI'', ''lets-get-hai''), (''Maverick Protocol'', ''maverick-protocol''),
      (''Metronome'', ''metronome''), (''Overnight Finance'', ''overnight-finance''),
      (''Peapods Finance'', ''peapods-finance''), (''Sushi'', ''sushi''),
      (''SynFutures'', ''synfutures''), (''Thales'', ''thales''),
      (''TLX Finance'', ''tlx-finance'')]"

section \<open>The script \<open>node/index.ts\<close>\<close>

text \<open>\<open>chain.split("-")[0]\<close>: the characters before the first \<open>-\<close>.\<close>

definition split_first :: "string \<Rightarrow> string" where
  "split_first chain = takeWhile (\<lambda>c. c \<noteq> CHR ''-'') chain"

text \<open>\<open>const targetTimestamp = date.getTime() / 1000\<close>, in both scripts.\<close>

definition targetTimestamp :: "Date \<Rightarrow> number" where
  "targetTimestamp d = fdiv (getTime d) (Finite 1000)"

text \<open>
  \<open>getTvlOnDate\<close>: the loop over the chains of the response, with the running
  \<open>totalTvl\<close> and the target timestamp \<open>target\<close>; \<open>tvlData.find\<close> returns the
  first item whose date is the target.
\<close>

fun getTvlOnDate_loop :: "number \<Rightarrow> (string \<times> ChainTvl) list \<Rightarrow> number \<Rightarrow> number" where
  "getTvlOnDate_loop target [] totalTvl = totalTvl"
| "getTvlOnDate_loop target ((chain, entry) # rest) totalTvl =
     (if split_first chain \<in> MAJOR_SUPERCHAIN_L2S then
        (case find (\<lambda>d. strict_eq (date d) target) (tvl entry) of
           Some dayTvl \<Rightarrow>
             getTvlOnDate_loop target rest (fadd totalTvl (totalLiquidityUSD dayTvl))
         | None \<Rightarrow> getTvlOnDate_loop target rest totalTvl)
      else getTvlOnDate_loop target rest totalTvl)"

definition getTvlOnDate :: "DefiLlamaApiResponse \<Rightarrow> Date \<Rightarrow> number" where
  "getTvlOnDate data d = getTvlOnDate_loop (targetTimestamp d) (chainTvls data) (Finite 0)"

text \<open>\<open>calculateTrailingAverageTvl\<close>: the loop \<open>for (let i = 0; i < TRAILING_DAYS; i++)\<close>.\<close>

function calculateTrailingAverageTvl_loop ::
  "DefiLlamaApiResponse \<Rightarrow> Date \<Rightarrow> nat \<Rightarrow> number \<Rightarrow> number" where
  "calculateTrailingAverageTvl_loop data endDate i totalTvlForPeriod =
     (if i < TRAILING_DAYS then
        calculateTrailingAverageTvl_loop data endDate (i + 1)
          (fadd totalTvlForPeriod (getTvlOnDate data (setUTCDate_back endDate i)))
      else totalTvlForPeriod)"
  by pat_completeness auto
termination
  by (relation "measure (\<lambda>(data, endDate, i, acc). TRAILING_DAYS - i)") auto

declare calculateTrailingAverageTvl_loop.simps [simp del]

definition calculateTrailingAverageTvl ::
  "(string \<Rightarrow> int option) \<Rightarrow> DefiLlamaApiResponse \<Rightarrow> string \<Rightarrow> number" where
  "calculateTrailingAverageTvl Date_parse data endDateStr =
     (let endDate = new_Date Date_parse (endDateStr @ ''T00:00:00Z'')
      in fdiv (calculateTrailingAverageTvl_loop data endDate 0 (Finite 0))
           (Finite (of_nat TRAILING_DAYS)))"

section \<open>The second script (with the CSV output)\<close>

text \<open>
  The second copy of the script stands at the end of the file
  \<open>2025-11-shortlived.btc-us-venezuela-military-engagement/spec.md\<close>. It differs from
  \<open>node/index.ts\<close> in four places:
  \<open>getTvlOnDate\<close> looks the chain key itself up in \<open>MAJOR_SUPERCHAIN_L2S\<close> and returns
  \<open>null\<close> (here \<open>None\<close>) when no chain had an item for the date;
  \<open>calculateTrailingAverageTvl\<close> divides by the number of days that were not
  \<open>null\<close>, and returns \<open>0\<close> when there is none; \<open>main\<close> stores the start value, the
  end value and the difference, and collects the rows of a CSV file. Its functions carry
  the suffix \<open>_csv\<close>.
\<close>

fun getTvlOnDate_csv_loop ::
  "number \<Rightarrow> (string \<times> ChainTvl) list \<Rightarrow> number \<times> bool \<Rightarrow> number \<times> bool" where
  "getTvlOnDate_csv_loop target [] (totalTvl, hasData) = (totalTvl, hasData)"
| "getTvlOnDate_csv_loop target ((chain, entry) # rest) (totalTvl, hasData) =
     (if chain \<in> MAJOR_SUPERCHAIN_L2S then
        (case find (\<lambda>d. strict_eq (date d) target) (tvl entry) of
           Some dayTvl \<Rightarrow>
             getTvlOnDate_csv_loop target rest
               (fadd totalTvl (totalLiquidityUSD dayTvl), True)
         | None \<Rightarrow> getTvlOnDate_csv_loop target rest (totalTvl, hasData))
      else getTvlOnDate_csv_loop target rest (totalTvl, hasData))"

definition getTvlOnDate_csv :: "DefiLlamaApiResponse \<Rightarrow> Date \<Rightarrow> number option" where
  "getTvlOnDate_csv data d =
     (let (totalTvl, hasData) =
            getTvlOnDate_csv_loop (targetTimestamp d) (chainTvls data) (Finite 0, False)
      in if hasData then Some totalTvl else None)"

function calculateTrailingAverageTvl_csv_loop ::
  "DefiLlamaApiResponse \<Rightarrow> Date \<Rightarrow> nat \<Rightarrow> number \<times> nat \<Rightarrow> number \<times> nat" where
  "calculateTrailingAverageTvl_csv_loop data endDate i (totalTvlForPeriod, nonNullDays) =
     (if i < TRAILING_DAYS then
        (case getTvlOnDate_csv data (setUTCDate_back endDate i) of
           Some dayTvl \<Rightarrow>
             calculateTrailingAverageTvl_csv_loop data endDate (i + 1)
               (fadd totalTvlForPeriod dayTvl, nonNullDays + 1)
         | None \<Rightarrow>
             calculateTrailingAverageTvl_csv_loop data endDate (i + 1)
               (totalTvlForPeriod, nonNullDays))
      else (totalTvlForPeriod, nonNullDays))"
  by pat_completeness auto
termination
  by (relation "measure (\<lambda>(data, endDate, i, acc). TRAILING_DAYS - i)") auto

declare calculateTrailingAverageTvl_csv_loop.simps [simp del]

definition calculateTrailingAverageTvl_csv ::
  "(string \<Rightarrow> int option) \<Rightarrow> DefiLlamaApiResponse \<Rightarrow> string \<Rightarrow> number" where
  "calculateTrailingAverageTvl_csv Date_parse data endDateStr =
     (let endDate = new_Date Date_parse (endDateStr @ ''T00:00:00Z'');
          (totalTvlForPeriod, nonNullDays) =
            calculateTrailingAverageTvl_csv_loop data endDate 0 (Finite 0, 0)
      in if nonNullDays > 0 then fdiv totalTvlForPeriod (Finite (of_nat nonNullDays))
         else Finite 0)"

section \<open>The response as it arrives, and \<open>main\<close>\<close>

text \<open>
  \<open>fetchProtocolData\<close> returns \<open>(await response.json()) as DefiLlamaApiResponse\<close>:
  the cast is not checked, so the value that reaches \<open>calculateTrailingAverageTvl\<close> is
  whatever JSON the server sent. Where a part that the interface declares is missing, the
  functions above throw a \<open>TypeError\<close> at the access that needs it, inside the
  \<open>try\<close> block of \<open>main\<close>. A response as it arrives is therefore:

  \<^item> \<open>null\<close> (\<open>data.chainTvls\<close> throws), or an object whose \<open>chainTvls\<close> is absent
    or \<open>null\<close> (\<open>for ... in\<close> over \<open>undefined\<close> or \<open>null\<close> runs no iteration) or
    lists chain entries;

  \<^item> a chain entry is \<open>null\<close> (\<open>data.chainTvls[chain].tvl\<close> throws), or an object
    whose \<open>tvl\<close> is absent or not an array (\<open>tvlData.find\<close> throws) or is an array:
    \<open>Null_entry\<close>, \<open>Entry None\<close> and \<open>Entry (Some items)\<close>;

  \<^item> an item of the array is \<open>null\<close> (the callback's \<open>d.date\<close> throws when
    \<open>find\<close> reaches it), or an item of the interface.

  These are the accesses of the two scripts that can throw; a chain entry that the script
  does not count, and an item behind the one \<open>find\<close> returns, are never read. Values
  of another type in the place of a number or of an item do not make the scripts throw
  (they change the number computed) and are not modelled. A thrown value is an
  \<open>error\<close>.
\<close>

datatype error = Error string | TypeError string

datatype raw_item = Null_item | Item TvlDataItem

datatype raw_entry = Null_entry | Entry "raw_item list option"

datatype raw_response = Null_response | Response "(string \<times> raw_entry) list option"

text \<open>The response of the declared interface, as a response that arrives.\<close>

definition raw_entry_of :: "ChainTvl \<Rightarrow> raw_entry" where
  "raw_entry_of entry = Entry (Some (map Item (tvl entry)))"

definition raw_of :: "DefiLlamaApiResponse \<Rightarrow> raw_response" where
  "raw_of data =
     Response (Some (map (\<lambda>(chain, entry). (chain, raw_entry_of entry)) (chainTvls data)))"

text \<open>
  \<open>tvlData.find((d) => d.date === targetTimestamp)\<close> on the items as they arrive: the
  callback is applied to the items in order, up to the first match.
\<close>

fun find_raw :: "number \<Rightarrow> raw_item list \<Rightarrow> error + TvlDataItem option" where
  "find_raw target [] = Inr None"
| "find_raw target (Null_item # rest) = Inl (TypeError ''Cannot read properties of null'')"
| "find_raw target (Item d # rest) =
     (if strict_eq (date d) target then Inr (Some d) else find_raw target rest)"

text \<open>\<open>getTvlOnDate\<close> and \<open>calculateTrailingAverageTvl\<close> of \<open>node/index.ts\<close>.\<close>

fun getTvlOnDate_raw_loop ::
  "number \<Rightarrow> (string \<times> raw_entry) list \<Rightarrow> number \<Rightarrow> error + number" where
  "getTvlOnDate_raw_loop target [] totalTvl = Inr totalTvl"
| "getTvlOnDate_raw_loop target ((chain, entry) # rest) totalTvl =
     (if split_first chain \<in> MAJOR_SUPERCHAIN_L2S then
        (case entry of
           Null_entry \<Rightarrow> Inl (TypeError ''Cannot read properties of null'')
         | Entry None \<Rightarrow> Inl (TypeError ''tvlData.find is not a function'')
         | Entry (Some tvlData) \<Rightarrow>
             (case find_raw target tvlData of
                Inl err \<Rightarrow> Inl err
              | Inr (Some dayTvl) \<Rightarrow>
                  getTvlOnDate_raw_loop target rest (fadd totalTvl (totalLiquidityUSD dayTvl))
              | Inr None \<Rightarrow> getTvlOnDate_raw_loop target rest totalTvl))
      else getTvlOnDate_raw_loop target rest totalTvl)"

definition getTvlOnDate_raw :: "raw_response \<Rightarrow> Date \<Rightarrow> error + number" where
  "getTvlOnDate_raw data d =
     (case data of
        Null_response \<Rightarrow> Inl (TypeError ''Cannot read properties of null'')
      | Response None \<Rightarrow> Inr (Finite 0)
      | Response (Some cs) \<Rightarrow> getTvlOnDate_raw_loop (targetTimestamp d) cs (Finite 0))"

function calculateTrailingAverageTvl_raw_loop ::
  "raw_response \<Rightarrow> Date \<Rightarrow> nat \<Rightarrow> number \<Rightarrow> error + number" where
  "calculateTrailingAverageTvl_raw_loop data endDate i totalTvlForPeriod =
     (if i < TRAILING_DAYS then
        (case getTvlOnDate_raw data (setUTCDate_back endDate i) of
           Inl err \<Rightarrow> Inl err
         | Inr dayTvl \<Rightarrow>
             calculateTrailingAverageTvl_raw_loop data endDate (i + 1)
               (fadd totalTvlForPeriod dayTvl))
      else Inr totalTvlForPeriod)"
  by pat_completeness auto
termination
  by (relation "measure (\<lambda>(data, endDate, i, acc). TRAILING_DAYS - i)") auto

declare calculateTrailingAverageTvl_raw_loop.simps [simp del]

definition calculateTrailingAverageTvl_raw ::
  "(string \<Rightarrow> int option) \<Rightarrow> raw_response \<Rightarrow> string \<Rightarrow> error + number" where
  "calculateTrailingAverageTvl_raw Date_parse data endDateStr =
     (let endDate = new_Date Date_parse (endDateStr @ ''T00:00:00Z'')
      in case calculateTrailingAverageTvl_raw_loop data endDate 0 (Finite 0) of
           Inl err \<Rightarrow> Inl err
         | Inr totalTvlForPeriod \<Rightarrow>
             Inr (fdiv totalTvlForPeriod (Finite (of_nat TRAILING_DAYS))))"

text \<open>The same two functions of the second script.\<close>

fun getTvlOnDate_csv_raw_loop ::
  "number \<Rightarrow> (string \<times> raw_entry) list \<Rightarrow> number \<times> bool \<Rightarrow> error + number \<times> bool" where
  "getTvlOnDate_csv_raw_loop target [] (totalTvl, hasData) = Inr (totalTvl, hasData)"
| "getTvlOnDate_csv_raw_loop target ((chain, entry) # rest) (totalTvl, hasData) =
     (if chain \<in> MAJOR_SUPERCHAIN_L2S then
        (case entry of
           Null_entry \<Rightarrow> Inl (TypeError ''Cannot read properties of null'')
         | Entry None \<Rightarrow> Inl (TypeError ''tvlData.find is not a function'')
         | Entry (Some tvlData) \<Rightarrow>
             (case find_raw target tvlData of
                Inl err \<Rightarrow> Inl err
              | Inr (Some dayTvl) \<Rightarrow>
                  getTvlOnDate_csv_raw_loop target rest
                    (fadd totalTvl (totalLiquidityUSD dayTvl), True)
              | Inr None \<Rightarrow> getTvlOnDate_csv_raw_loop target rest (totalTvl, hasData)))
      else getTvlOnDate_csv_raw_loop target rest (totalTvl, hasData))"

definition getTvlOnDate_csv_raw :: "raw_response \<Rightarrow> Date \<Rightarrow> error + number option" where
  "getTvlOnDate_csv_raw data d =
     (case data of
        Null_response \<Rightarrow> Inl (TypeError ''Cannot read properties of null'')
      | Response None \<Rightarrow> Inr None
      | Response (Some cs) \<Rightarrow>
          (case getTvlOnDate_csv_raw_loop (targetTimestamp d) cs (Finite 0, False) of
             Inl err \<Rightarrow> Inl err
           | Inr (totalTvl, hasData) \<Rightarrow> Inr (if hasData then Some totalTvl else None)))"

function calculateTrailingAverageTvl_csv_raw_loop ::
  "raw_response \<Rightarrow> Date \<Rightarrow> nat \<Rightarrow> number \<times> nat \<Rightarrow> error + number \<times> nat" where
  "calculateTrailingAverageTvl_csv_raw_loop data endDate i (totalTvlForPeriod, nonNullDays) =
     (if i < TRAILING_DAYS then
        (case getTvlOnDate_csv_raw data (setUTCDate_back endDate i) of
           Inl err \<Rightarrow> Inl err
         | Inr (Some dayTvl) \<Rightarrow>
             calculateTrailingAverageTvl_csv_raw_loop data endDate (i + 1)
               (fadd totalTvlForPeriod dayTvl, nonNullDays + 1)
         | Inr None \<Rightarrow>
             calculateTrailingAverageTvl_csv_raw_loop data endDate (i + 1)
               (totalTvlForPeriod, nonNullDays))
      else Inr (totalTvlForPeriod, nonNullDays))"
  by pat_completeness auto
termination
  by (relation "measure (\<lambda>(data, endDate, i, acc). TRAILING_DAYS - i)") auto

declare calculateTrailingAverageTvl_csv_raw_loop.simps [simp del]

definition calculateTrailingAverageTvl_csv_raw ::
  "(string \<Rightarrow> int option) \<Rightarrow> raw_response \<Rightarrow> string \<Rightarrow> error + number" where
  "calculateTrailingAverageTvl_csv_raw Date_parse data endDateStr =
     (let endDate = new_Date Date_parse (endDateStr @ ''T00:00:00Z'')
      in case calculateTrailingAverageTvl_csv_raw_loop data endDate 0 (Finite 0, 0) of
           Inl err \<Rightarrow> Inl err
         | Inr (totalTvlForPeriod, nonNullDays) \<Rightarrow>
             Inr (if nonNullDays > 0 then fdiv totalTvlForPeriod (Finite (of_nat nonNullDays))
                  else Finite 0))"

text \<open>
  \<open>main\<close> of \<open>node/index.ts\<close>. \<open>fetchProtocolData\<close> either throws or returns the
  response as it arrived, and is a parameter standing for the network: a function of the
  slug, which a run calls once for each project, the slugs of \<open>PROJECTS\<close> being distinct
  (lemma \<open>PROJECTS_slugs_distinct\<close>). The body of the \<open>try\<close> block is
  \<open>process_project\<close>: the fetch and the two calls of \<open>calculateTrailingAverageTvl\<close>,
  each of which may throw; the \<open>catch\<close> block stores the message. \<open>results\<close> maps a
  slug to a number or a string. Console output is not modelled.
\<close>

datatype result_entry = Difference number | Message string

definition process_project ::
  "(string \<Rightarrow> int option) \<Rightarrow> (string \<Rightarrow> error + raw_response) \<Rightarrow> string \<Rightarrow> error + number" where
  "process_project Date_parse fetchProtocolData slug =
     (case fetchProtocolData slug of
        Inl err \<Rightarrow> Inl err
      | Inr protocolData \<Rightarrow>
          (case calculateTrailingAverageTvl_raw Date_parse protocolData METRIC_END_DATE of
             Inl err \<Rightarrow> Inl err
           | Inr t_end \<Rightarrow>
               (case calculateTrailingAverageTvl_raw Date_parse protocolData METRIC_START_DATE of
                  Inl err \<Rightarrow> Inl err
                | Inr t_start \<Rightarrow> Inr (fsub t_end t_start))))"

fun main_loop ::
  "(string \<Rightarrow> int option) \<Rightarrow> (string \<Rightarrow> error + raw_response) \<Rightarrow>
     (string \<times> string) list \<Rightarrow> (string \<rightharpoonup> result_entry) \<Rightarrow> (string \<rightharpoonup> result_entry)" where
  "main_loop Date_parse fetchProtocolData [] results = results"
| "main_loop Date_parse fetchProtocolData ((name, slug) # rest) results =
     main_loop Date_parse fetchProtocolData rest
       (case process_project Date_parse fetchProtocolData slug of
          Inr difference \<Rightarrow> results(slug \<mapsto> Difference difference)
        | Inl err \<Rightarrow> results(slug \<mapsto> Message ''Error processing project''))"

definition main ::
  "(string \<Rightarrow> int option) \<Rightarrow> (string \<Rightarrow> error + raw_response) \<Rightarrow>
     (string \<rightharpoonup> result_entry)" where
  "main Date_parse fetchProtocolData = main_loop Date_parse fetchProtocolData PROJECTS Map.empty"

text \<open>
  \<open>main\<close> of the second script. An entry of \<open>results\<close> is the object with the fields
  \<open>start\<close>, \<open>end\<close> and \<open>difference\<close> (in this order in \<open>Summary\<close>), or the error
  message. A CSV row is kept as its fields: the header, the row of a project (its name and
  the three values under \<open>Math.round\<close>), or the error row of a project.
\<close>

datatype result_entry_csv = Summary number number number | Message_csv string

datatype csv_row = Header | Row string number number number | ErrorRow string

definition process_project_csv ::
  "(string \<Rightarrow> int option) \<Rightarrow> (string \<Rightarrow> error + raw_response) \<Rightarrow> string
     \<Rightarrow> error + number \<times> number \<times> number" where
  "process_project_csv Date_parse fetchProtocolData slug =
     (case fetchProtocolData slug of
        Inl err \<Rightarrow> Inl err
      | Inr protocolData \<Rightarrow>
          (case calculateTrailingAverageTvl_csv_raw Date_parse protocolData METRIC_END_DATE of
             Inl err \<Rightarrow> Inl err
           | Inr t_end \<Rightarrow>
               (case calculateTrailingAverageTvl_csv_raw Date_parse protocolData
                       METRIC_START_DATE of
                  Inl err \<Rightarrow> Inl err
                | Inr t_start \<Rightarrow> Inr (t_start, t_end, fsub t_end t_start))))"

fun main_csv_loop ::
  "(string \<Rightarrow> int option) \<Rightarrow> (string \<Rightarrow> error + raw_response) \<Rightarrow>
     (string \<times> string) list \<Rightarrow> (string \<rightharpoonup> result_entry_csv) \<times> csv_row list \<Rightarrow>
     (string \<rightharpoonup> result_entry_csv) \<times> csv_row list" where
  "main_csv_loop Date_parse fetchProtocolData [] (results, csvRows) = (results, csvRows)"
| "main_csv_loop Date_parse fetchProtocolData ((name, slug) # rest) (results, csvRows) =
     main_csv_loop Date_parse fetchProtocolData rest
       (case process_project_csv Date_parse fetchProtocolData slug of
          Inr (t_start, t_end, difference) \<Rightarrow>
            (results(slug \<mapsto> Summary t_start t_end difference),
             csvRows @ [Row name (Math_round t_start) (Math_round t_end) (Math_round difference)])
        | Inl err \<Rightarrow>
            (results(slug \<mapsto> Message_csv ''Error processing project''),
             csvRows @ [ErrorRow name]))"

definition main_csv ::
  "(string \<Rightarrow> int option) \<Rightarrow> (string \<Rightarrow> error + raw_response) \<Rightarrow>
     (string \<rightharpoonup> result_entry_csv) \<times> csv_row list" where
  "main_csv Date_parse fetchProtocolData =
     main_csv_loop Date_parse fetchProtocolData PROJECTS_csv (Map.empty, [Header])"

section \<open>Notions used to state the properties\<close>

text \<open>
  The date of iteration \<open>i\<close> of the loop of \<open>calculateTrailingAverageTvl\<close>: the end
  date moved back by \<open>i\<close> days.
\<close>

definition trailing_date :: "(string \<Rightarrow> int option) \<Rightarrow> string \<Rightarrow> nat \<Rightarrow> Date" where
  "trailing_date Date_parse endDateStr i =
     setUTCDate_back (new_Date Date_parse (endDateStr @ ''T00:00:00Z'')) i"

text \<open>A chain has data for a timestamp when \<open>tvlData.find\<close> finds an item.\<close>

definition has_item :: "ChainTvl \<Rightarrow> number \<Rightarrow> bool" where
  "has_item entry ts = (find (\<lambda>d. strict_eq (date d) ts) (tvl entry) \<noteq> None)"

text \<open>One iteration of the day loop of the second script, on the result of the day.\<close>

fun csv_step :: "number \<times> nat \<Rightarrow> number option \<Rightarrow> number \<times> nat" where
  "csv_step (tot, n) (Some dayTvl) = (fadd tot dayTvl, n + 1)"
| "csv_step (tot, n) None = (tot, n)"

text \<open>
  The sample values a script retains for a timestamp: for each chain whose key the script
  counts (\<open>counted\<close>), in the order of the keys, the value of the first item dated at the
  timestamp, if there is one. \<open>node/index.ts\<close> counts a key by its part before the first
  \<open>-\<close>, the second script by the whole key.
\<close>

definition retained ::
  "(string \<Rightarrow> bool) \<Rightarrow> (string \<times> ChainTvl) list \<Rightarrow> number \<Rightarrow> number list" where
  "retained counted cs ts =
     List.map_filter
       (\<lambda>(chain, entry).
          if counted chain
          then map_option totalLiquidityUSD (find (\<lambda>d. strict_eq (date d) ts) (tvl entry))
          else None)
       cs"

definition counted_index :: "string \<Rightarrow> bool" where
  "counted_index chain = (split_first chain \<in> MAJOR_SUPERCHAIN_L2S)"

definition counted_csv :: "string \<Rightarrow> bool" where
  "counted_csv chain = (chain \<in> MAJOR_SUPERCHAIN_L2S)"

text \<open>The exact sum of the values retained for a date.\<close>

definition exact_total :: "(string \<Rightarrow> bool) \<Rightarrow> DefiLlamaApiResponse \<Rightarrow> Date \<Rightarrow> rat" where
  "exact_total counted data d =
     (\<Sum>x\<leftarrow>retained counted (chainTvls data) (targetTimestamp d). val x)"

text \<open>
  The mean of the specification's Aggregator, \<open>scalar = sum(values) / count\<close>, in exact
  arithmetic.
\<close>

definition exact_mean :: "rat list \<Rightarrow> rat" where
  "exact_mean values = sum_list values / of_nat (length values)"

text \<open>A number is integral when it is finite and its value is an integer.\<close>

definition integral :: "number \<Rightarrow> bool" where
  "integral x = (case x of Finite r \<Rightarrow> of_int \<lfloor>r\<rfloor> = r | _ \<Rightarrow> False)"

text \<open>The sum of the absolute values of all amounts of a response.\<close>

definition magnitude :: "(string \<times> ChainTvl) list \<Rightarrow> rat" where
  "magnitude cs = (\<Sum>(chain, entry)\<leftarrow>cs. \<Sum>d\<leftarrow>tvl entry. \<bar>val (totalLiquidityUSD d)\<bar>)"

text \<open>
  The value of \<open>Date.parse\<close> on the two strings the scripts build from
  \<open>METRIC_END_DATE\<close> and \<open>METRIC_START_DATE\<close> (midnight UTC of 2025-06-12 and of
  2025-03-20, in milliseconds); used for the concrete runs below.
\<close>

definition Date_parse_metric :: "string \<Rightarrow> int option" where
  "Date_parse_metric s =
     (if s = ''2025-06-12T00:00:00Z'' then Some 1749686400000
      else if s = ''2025-03-20T00:00:00Z'' then Some 1742428800000
      else None)"

text \<open>
  Responses for the concrete runs: one item of 7 USD on Base on 2025-06-12
  (timestamp 1749686400); two items with that date on Base; the item of 7 USD under the
  key \<open>Base-staking\<close> only; and items under both \<open>Base\<close> and \<open>Base-staking\<close>.
\<close>

definition tvl_end_only :: DefiLlamaApiResponse where
  "tvl_end_only =
     \<lparr>chainTvls =
        [(''Base'', \<lparr>tvl = [\<lparr>date = Finite 1749686400, totalLiquidityUSD = Finite 7\<rparr>]\<rparr>)]\<rparr>"


definition tvl_staking_only :: DefiLlamaApiResponse where
  "tvl_staking_only =
     \<lparr>chainTvls =
        [(''Base-staking'',
          \<lparr>tvl = [\<lparr>date = Finite 1749686400, totalLiquidityUSD = Finite 7\<rparr>]\<rparr>)]\<rparr>"


text \<open>A response with an item on Base for each day of the window that ends on 2025-06-12.\<close>

definition tvl_full_week :: DefiLlamaApiResponse where
  "tvl_full_week =
     \<lparr>chainTvls =
        [(''Base'',
          \<lparr>tvl = [\<lparr>date = Finite 1749168000, totalLiquidityUSD = Finite 1\<rparr>,
                  \<lparr>date = Finite 1749254400, totalLiquidityUSD = Finite 2\<rparr>,
                  \<lparr>date = Finite 1749340800, totalLiquidityUSD = Finite 3\<rparr>,
                  \<lparr>date = Finite 1749427200, totalLiquidityUSD = Finite 4\<rparr>,
                  \<lparr>date = Finite 1749513600, totalLiquidityUSD = Finite 5\<rparr>,
                  \<lparr>date = Finite 1749600000, totalLiquidityUSD = Finite 6\<rparr>,
                  \<lparr>date = Finite 1749686400, totalLiquidityUSD = Finite 7\<rparr>]\<rparr>)]\<rparr>"

text \<open>
  A response with items on Base for the last three days of the window that ends on
  2025-06-12: 0, 0 and 1 USD.
\<close>

definition tvl_three_days :: DefiLlamaApiResponse where
  "tvl_three_days =
     \<lparr>chainTvls =
        [(''Base'',
          \<lparr>tvl = [\<lparr>date = Finite 1749513600, totalLiquidityUSD = Finite 0\<rparr>,
                  \<lparr>date = Finite 1749600000, totalLiquidityUSD = Finite 0\<rparr>,
                  \<lparr>date = Finite 1749686400, totalLiquidityUSD = Finite 1\<rparr>]\<rparr>)]\<rparr>"

text \<open>A response with an item on Base on 2025-03-20 (14 USD) and on 2025-06-12 (7 USD).\<close>

definition tvl_both_dates :: DefiLlamaApiResponse where
  "tvl_both_dates =
     \<lparr>chainTvls =
        [(''Base'',
          \<lparr>tvl = [\<lparr>date = Finite 1742428800, totalLiquidityUSD = Finite 14\<rparr>,
                  \<lparr>date = Finite 1749686400, totalLiquidityUSD = Finite 7\<rparr>]\<rparr>)]\<rparr>"

text \<open>
  The accesses that throw. \<open>entry_throws\<close>: for the timestamp, reading the chain entry
  throws (it is \<open>null\<close>, it has no array \<open>tvl\<close>, or \<open>find\<close> reaches a \<open>null\<close>
  item before an item dated at the timestamp). \<open>throws\<close>: the response is \<open>null\<close>, or
  reading one of the chain entries that the script counts throws. \<open>window_throws\<close>: so
  for one of the days of the trailing window.
\<close>

definition entry_throws :: "number \<Rightarrow> raw_entry \<Rightarrow> bool" where
  "entry_throws ts entry =
     (case entry of
        Null_entry \<Rightarrow> True
      | Entry None \<Rightarrow> True
      | Entry (Some items) \<Rightarrow> isl (find_raw ts items))"

definition throws :: "(string \<Rightarrow> bool) \<Rightarrow> raw_response \<Rightarrow> number \<Rightarrow> bool" where
  "throws counted data ts =
     (case data of
        Null_response \<Rightarrow> True
      | Response None \<Rightarrow> False
      | Response (Some cs) \<Rightarrow> (\<exists>(chain, entry)\<in>set cs. counted chain \<and> entry_throws ts entry))"

definition window_throws ::
  "(string \<Rightarrow> bool) \<Rightarrow> (string \<Rightarrow> int option) \<Rightarrow> raw_response \<Rightarrow> string \<Rightarrow> bool" where
  "window_throws counted Date_parse data endDateStr =
     (\<exists>i\<in>set [0..<TRAILING_DAYS].
        throws counted data (targetTimestamp (trailing_date Date_parse endDateStr i)))"

text \<open>
  Two responses that are not of the interface: \<open>{"chainTvls": {"Base": {}}}\<close>, whose
  entry for Base has no \<open>tvl\<close>; and a response whose entry for Ethereum, a chain that the
  scripts do not count, is \<open>null\<close>, beside the item of 7 USD on Base on 2025-06-12.
\<close>

definition raw_without_tvl :: raw_response where
  "raw_without_tvl = Response (Some [(''Base'', Entry None)])"

definition raw_null_elsewhere :: raw_response where
  "raw_null_elsewhere =
     Response (Some
       [(''Ethereum'', Null_entry),
        (''Base'', Entry (Some [Item \<lparr>date = Finite 1749686400, totalLiquidityUSD = Finite 7\<rparr>]))])"

section \<open>The window resolver and the rounder of the specification\<close>

text \<open>
  Modelled from the spec: the window of the TimeWindowResolver, with its two instants
  (integers: seconds or milliseconds since the epoch). The resolver belongs to the
  command-line tools for the TWAP questions, whose code is not among the sources.
\<close>

record window =
  window_start :: int
  window_end :: int

text \<open>
  Modelled from the spec: rounding an instant up to the sampling grid (if \<open>start\<close> is not
  aligned to the sampling granularity, round up to the next grid boundary).
\<close>

definition ceil_to_grid :: "int \<Rightarrow> int \<Rightarrow> int" where
  "ceil_to_grid grid t = (if t mod grid = 0 then t else t + (grid - t mod grid))"

text \<open>
  Modelled from the spec: the mode Offset+Duration of the TimeWindowResolver,
  \<open>start = anchor + cooldown\<close> rounded up to the grid and \<open>end = start + duration\<close>.
\<close>

definition resolve_offset_duration :: "int \<Rightarrow> int \<Rightarrow> int \<Rightarrow> int \<Rightarrow> window" where
  "resolve_offset_duration grid anchor cooldown duration =
     (let start = ceil_to_grid grid (anchor + cooldown)
      in \<lparr>window_start = start, window_end = start + duration\<rparr>)"

text \<open>
  Modelled from the spec: the window filter of the SampleNormalizer for a half-open
  window \<open>[start, end)\<close>.
\<close>

definition in_window :: "window \<Rightarrow> int \<Rightarrow> bool" where
  "in_window w t = (window_start w \<le> t \<and> t < window_end w)"

text \<open>
  Modelled from the spec: the half-up law of the Rounder, \<open>floor(x + 0.5)\<close>, on exact
  decimals (rationals). The Rounder belongs to the TWAP tools, whose code is not among
  the sources.
\<close>

definition half_up :: "rat \<Rightarrow> int" where
  "half_up x = \<lfloor>x + 1 / 2\<rfloor>"

text \<open>Modelled from the spec: the Rounder, applied to \<open>scalar * 100\<close>.\<close>

definition round_scalar_half_up :: "rat \<Rightarrow> int" where
  "round_scalar_half_up scalar = half_up (scalar * 100)"

section \<open>Rounding\<close>

text \<open>
  \<open>bit_length\<close> and \<open>ilog2\<close> compute the binary exponent, and rounding leaves an
  integer below \<open>2 ^ 53\<close> unchanged.
\<close>

lemma bit_length_bounds:
  "0 < n \<Longrightarrow> 2 ^ (bit_length n - 1) \<le> n \<and> n < 2 ^ bit_length n"
proof (induction n rule: bit_length.induct)
  case (1 n)
  show ?case
  proof (cases "n div 2 = 0")
    case True
    then have n: "n = Suc 0" using "1.prems" by auto
    have "bit_length (Suc 0) = Suc 0"
      by (simp add: bit_length.simps [of "Suc 0"] bit_length.simps [of 0])
    then show ?thesis
      by (simp add: n)
  next
    case False
    then have pos: "0 < n div 2" by simp
    have IH: "2 ^ (bit_length (n div 2) - 1) \<le> n div 2 \<and> n div 2 < 2 ^ bit_length (n div 2)"
      using "1.IH" "1.prems" pos by simp
    have bl: "bit_length n = Suc (bit_length (n div 2))"
      using "1.prems" by (subst bit_length.simps) simp
    have blpos: "0 < bit_length (n div 2)"
      using pos by (subst bit_length.simps) simp
    then obtain k where k: "bit_length (n div 2) = Suc k"
      by (cases "bit_length (n div 2)") auto
    show ?thesis
      using IH by (simp add: bl k) arith
  qed
qed

lemma pow2_pos: "0 < pow2 e"
  by (simp add: pow2_def)

lemma pow2_power_int: "pow2 e = power_int 2 e"
  by (simp add: pow2_def power_int_def inverse_eq_divide power_one_over)

lemma pow2_add: "pow2 (a + b) = pow2 a * pow2 b"
  by (simp add: pow2_power_int power_int_add)

lemma pow2_mono: "a \<le> b \<Longrightarrow> pow2 a \<le> pow2 b"
  by (simp add: pow2_power_int power_int_increasing)

lemma pow2_strict_mono: "a < b \<Longrightarrow> pow2 a < pow2 b"
  by (simp add: pow2_power_int power_int_strict_increasing)

lemma pow2_nat: "pow2 (int n) = 2 ^ n"
  by (simp add: pow2_def)


lemma pow2_neg: "pow2 (- e) = 1 / pow2 e"
  by (simp add: pow2_power_int power_int_minus inverse_eq_divide)

lemma pow2_diff: "pow2 (a - b) = pow2 a / pow2 b"
  using pow2_add [of a "- b"] by (simp add: pow2_neg)

lemma ratio_bounds:
  fixes A B :: nat
  assumes A: "0 < A" and B: "0 < B"
  defines "d \<equiv> int (bit_length A) - int (bit_length B)"
  shows "pow2 (d - 1) < of_nat A / of_nat B" and "of_nat A / of_nat B < pow2 (d + 1)"
proof -
  have a1: "(2::rat) ^ (bit_length A - 1) \<le> of_nat A" and a2: "(of_nat A :: rat) < 2 ^ bit_length A"
    using bit_length_bounds [OF A]
    by (metis of_nat_le_iff of_nat_numeral of_nat_power, metis of_nat_less_iff of_nat_numeral of_nat_power)
  have b1: "(2::rat) ^ (bit_length B - 1) \<le> of_nat B" and b2: "(of_nat B :: rat) < 2 ^ bit_length B"
    using bit_length_bounds [OF B]
    by (metis of_nat_le_iff of_nat_numeral of_nat_power, metis of_nat_less_iff of_nat_numeral of_nat_power)
  have la: "0 < bit_length A" using A by (subst bit_length.simps) simp
  have lb: "0 < bit_length B" using B by (subst bit_length.simps) simp
  have pa: "pow2 (int (bit_length A) - 1) = 2 ^ (bit_length A - 1)"
    using la pow2_nat [of "bit_length A - 1"] by (simp add: of_nat_diff)
  have pb: "pow2 (int (bit_length B) - 1) = 2 ^ (bit_length B - 1)"
    using lb pow2_nat [of "bit_length B - 1"] by (simp add: of_nat_diff)
  have Bpos: "(0::rat) < of_nat B" using B by simp
  have "pow2 (d - 1) = pow2 (int (bit_length A) - 1) / pow2 (int (bit_length B))"
    unfolding d_def using pow2_diff [of "int (bit_length A) - 1" "int (bit_length B)"]
    by (simp add: algebra_simps)
  also have "\<dots> = 2 ^ (bit_length A - 1) / 2 ^ bit_length B"
    by (simp add: pa pow2_nat)
  also have "\<dots> < of_nat A / of_nat B"
  proof -
    have "(2::rat) ^ (bit_length A - 1) * of_nat B < of_nat A * 2 ^ bit_length B"
      using a1 b2 Bpos
      by (meson mult_le_less_imp_less zero_less_numeral zero_less_power less_eq_rat_def order_less_le_trans less_imp_le)
    then show ?thesis
      using Bpos by (simp add: field_simps)
  qed
  finally show "pow2 (d - 1) < of_nat A / of_nat B" .
  have "of_nat A / of_nat B < (2::rat) ^ bit_length A / 2 ^ (bit_length B - 1)"
  proof -
    have "of_nat A * (2::rat) ^ (bit_length B - 1) < 2 ^ bit_length A * of_nat B"
      using a2 b1 Bpos
      by (meson mult_less_le_imp_less zero_less_numeral zero_less_power of_nat_0_le_iff)
    then show ?thesis
      using Bpos by (simp add: field_simps)
  qed
  also have "\<dots> = pow2 (int (bit_length A)) / pow2 (int (bit_length B) - 1)"
    by (simp add: pb pow2_nat)
  also have "\<dots> = pow2 (d + 1)"
    unfolding d_def using pow2_diff [of "int (bit_length A)" "int (bit_length B) - 1"]
    by (simp add: algebra_simps)
  finally show "of_nat A / of_nat B < pow2 (d + 1)" .
qed


lemma ilog2_bounds:
  assumes "q \<noteq> 0"
  shows "pow2 (ilog2 q) \<le> \<bar>q\<bar>" and "\<bar>q\<bar> < pow2 (ilog2 q + 1)"
proof -
  obtain a b where ab: "quotient_of \<bar>q\<bar> = (a, b)" by (cases "quotient_of \<bar>q\<bar>")
  have b: "0 < b" using ab by (rule quotient_of_denom_pos)
  have q: "\<bar>q\<bar> = of_int a / of_int b" using ab by (rule quotient_of_div)
  have "0 < \<bar>q\<bar>" using assms by simp
  then have a: "0 < a" using q b by (simp add: zero_less_divide_iff)
  define A B where "A = nat a" and "B = nat b"
  have A: "0 < A" and B: "0 < B" using a b by (simp_all add: A_def B_def)
  have qAB: "\<bar>q\<bar> = of_nat A / of_nat B"
    using a b by (simp add: q A_def B_def)
  define d where "d = int (bit_length A) - int (bit_length B)"
  have lo: "pow2 (d - 1) < \<bar>q\<bar>" and hi: "\<bar>q\<bar> < pow2 (d + 1)"
    using ratio_bounds [OF A B] by (simp_all add: qAB d_def)
  have il: "ilog2 q = (if pow2 d \<le> \<bar>q\<bar> then d else d - 1)"
    by (simp add: ilog2_def ab d_def A_def B_def)
  show "pow2 (ilog2 q) \<le> \<bar>q\<bar>"
    using lo by (simp add: il)
  show "\<bar>q\<bar> < pow2 (ilog2 q + 1)"
    using hi by (simp add: il)
qed

lemma round_half_even_int: "round_half_even (of_int m) = m"
  by (simp add: round_half_even_def)

lemma ilog2_le:
  assumes "q \<noteq> 0" and "\<bar>q\<bar> < pow2 k"
  shows "ilog2 q < k"
proof (rule ccontr)
  assume "\<not> ilog2 q < k"
  then have "pow2 k \<le> pow2 (ilog2 q)" by (simp add: pow2_mono)
  then show False using ilog2_bounds(1) [OF assms(1)] assms(2) by simp
qed

lemma ilog2_ge:
  assumes "q \<noteq> 0" and "pow2 k \<le> \<bar>q\<bar>"
  shows "k \<le> ilog2 q"
proof (rule ccontr)
  assume "\<not> k \<le> ilog2 q"
  then have "pow2 (ilog2 q + 1) \<le> pow2 k" by (simp add: pow2_mono)
  then show False using ilog2_bounds(2) [OF assms(1)] assms(2) by simp
qed

lemma round_number_int:
  assumes "\<bar>n\<bar> < 2 ^ 53"
  shows "round_number (of_int n) = Finite (of_int n)"
proof (cases "n = 0")
  case True
  then show ?thesis by (simp add: round_number_def)
next
  case False
  define q :: rat where "q = of_int n"
  have q0: "q \<noteq> 0" using False by (simp add: q_def)
  have absq: "\<bar>q\<bar> = of_int \<bar>n\<bar>" by (simp add: q_def)
  have q53: "\<bar>q\<bar> < pow2 53"
    using assms by (simp add: absq pow2_def)
  then have e_hi: "ilog2 q < 53" using q0 by (intro ilog2_le)
  have "pow2 0 \<le> \<bar>q\<bar>"
    using False by (simp add: absq pow2_def)
  then have e_lo: "0 \<le> ilog2 q" using q0 by (intro ilog2_ge)
  define u where "u = max (ilog2 q - 52) (- 1074)"
  have u: "u = ilog2 q - 52" using e_lo by (simp add: u_def)
  have u0: "u \<le> 0" using e_hi by (simp add: u)
  define m where "m = \<bar>n\<bar> * 2 ^ nat (- u)"
  have scaled: "\<bar>q\<bar> / pow2 u = of_int m"
    using u0 by (simp add: absq m_def pow2_def) 
  have unscaled: "of_int m * pow2 u = \<bar>q\<bar>"
    using scaled pow2_pos [of u] by (simp add: field_simps)
  have small: "\<not> pow2 1024 \<le> \<bar>q\<bar>"
    using q53 pow2_mono [of 53 1024] by simp
  have r: "of_int (round_half_even (\<bar>q\<bar> / pow2 u)) * pow2 u = \<bar>q\<bar>"
    by (simp only: scaled round_half_even_int unscaled)
  have absq0: "\<bar>q\<bar> \<noteq> 0" using q0 by simp
  have "round_number q =
          (if pow2 1024 \<le> \<bar>q\<bar> then (if q < 0 then NegInfinity else PosInfinity)
           else if \<bar>q\<bar> = 0 then (if q < 0 then NegZero else Finite 0)
           else Finite (if q < 0 then - \<bar>q\<bar> else \<bar>q\<bar>))"
    using q0 by (simp only: round_number_def Let_def u_def [symmetric] r if_False)
  then have "round_number q = Finite (if q < 0 then - \<bar>q\<bar> else \<bar>q\<bar>)"
    by (simp only: small absq0 if_False)
  then show ?thesis
    by (simp add: q_def)
qed

lemma ilog2_unique:
  assumes "q \<noteq> 0" and "pow2 e \<le> \<bar>q\<bar>" and "\<bar>q\<bar> < pow2 (e + 1)"
  shows "ilog2 q = e"
  using ilog2_le [OF assms(1) assms(3)] ilog2_ge [OF assms(1) assms(2)] by simp

lemma round_number_numeral:
  "numeral k < (2::int) ^ 53 \<Longrightarrow> round_number (numeral k) = Finite (numeral k)"
  using round_number_int [of "numeral k"] by simp

lemma round_number_neg_numeral:
  "numeral k < (2::int) ^ 53 \<Longrightarrow> round_number (- numeral k) = Finite (- numeral k)"
  using round_number_int [of "- numeral k"] by simp

lemma round_number_0: "round_number 0 = Finite 0"
  by (simp add: round_number_def)

lemma round_number_1: "round_number 1 = Finite 1"
  using round_number_int [of 1] by simp

lemma floor_numeral_div: "\<lfloor>(numeral a / numeral b :: rat)\<rfloor> = numeral a div numeral b"
  using floor_divide_of_int_eq [of "numeral a" "numeral b", where ?'a = rat] by simp

lemma ilog2_seventh: "ilog2 (1 / 7) = - 3"
  by (rule ilog2_unique) (simp_all add: pow2_def)

lemma ilog2_third: "ilog2 (1 / 3) = - 2"
  by (rule ilog2_unique) (simp_all add: pow2_def)

lemma round_seventh: "round_number (1 / 7) = Finite (2573485501354569 / 18014398509481984)"
  by (simp add: round_number_def ilog2_seventh pow2_def round_half_even_def floor_numeral_div Let_def)

lemma round_third: "round_number (1 / 3) = Finite (6004799503160661 / 18014398509481984)"
  by (simp add: round_number_def ilog2_third pow2_def round_half_even_def floor_numeral_div Let_def)

section \<open>Evaluating the scripts on concrete input\<close>

lemmas number_eval = fadd_def fdiv_def fsub_def strict_eq_def is_inf_def is_zero_def
  signed_zero_def signed_inf_def round_number_numeral round_number_neg_numeral
  round_number_0 round_number_1 round_seventh round_third

lemmas date_eval = new_Date_def TimeClip_def setUTCDate_back_def getTime_def msPerDay_def
  targetTimestamp_def Date_parse_metric_def trailing_date_def

lemmas script_eval = calculateTrailingAverageTvl_loop.simps
  calculateTrailingAverageTvl_csv_loop.simps TRAILING_DAYS_def getTvlOnDate_def
  getTvlOnDate_csv_def split_first_def MAJOR_SUPERCHAIN_L2S_def METRIC_END_DATE_def
  METRIC_START_DATE_def

lemma all_less_TRAILING_DAYS:
  "(\<forall>i<TRAILING_DAYS. P i) \<longleftrightarrow> P 0 \<and> P 1 \<and> P 2 \<and> P 3 \<and> P 4 \<and> P 5 \<and> P 6"
proof -
  have "i < TRAILING_DAYS \<longleftrightarrow> i = 0 \<or> i = 1 \<or> i = 2 \<or> i = 3 \<or> i = 4 \<or> i = 5 \<or> i = 6" for i
    unfolding TRAILING_DAYS_def by arith
  then show ?thesis by auto
qed

lemma end_only_end_index:
  "calculateTrailingAverageTvl Date_parse_metric tvl_end_only ''2025-06-12'' = Finite 1"
  unfolding calculateTrailingAverageTvl_def Let_def
  by (simp add: script_eval tvl_end_only_def number_eval date_eval)

lemma end_only_end_csv:
  "calculateTrailingAverageTvl_csv Date_parse_metric tvl_end_only ''2025-06-12'' = Finite 7"
  unfolding calculateTrailingAverageTvl_csv_def Let_def
  by (simp add: script_eval tvl_end_only_def number_eval date_eval)

lemma end_only_start_index:
  "calculateTrailingAverageTvl Date_parse_metric tvl_end_only ''2025-03-20'' = Finite 0"
  unfolding calculateTrailingAverageTvl_def Let_def
  by (simp add: script_eval tvl_end_only_def number_eval date_eval)

lemma end_only_start_csv:
  "calculateTrailingAverageTvl_csv Date_parse_metric tvl_end_only ''2025-03-20'' = Finite 0"
  unfolding calculateTrailingAverageTvl_csv_def Let_def
  by (simp add: script_eval tvl_end_only_def number_eval date_eval)

lemma staking_only_end_index:
  "calculateTrailingAverageTvl Date_parse_metric tvl_staking_only ''2025-06-12'' = Finite 1"
  unfolding calculateTrailingAverageTvl_def Let_def
  by (simp add: script_eval tvl_staking_only_def number_eval date_eval)

lemma staking_only_end_csv:
  "calculateTrailingAverageTvl_csv Date_parse_metric tvl_staking_only ''2025-06-12'' = Finite 0"
  unfolding calculateTrailingAverageTvl_csv_def Let_def
  by (simp add: script_eval tvl_staking_only_def number_eval date_eval)




lemma full_week_keys:
  "\<forall>(chain, entry)\<in>set (chainTvls tvl_full_week).
      split_first chain \<in> MAJOR_SUPERCHAIN_L2S \<longrightarrow> chain \<in> MAJOR_SUPERCHAIN_L2S"
  by (simp add: tvl_full_week_def MAJOR_SUPERCHAIN_L2S_def)

lemma full_week_days:
  "\<forall>i<TRAILING_DAYS.
      getTvlOnDate_csv tvl_full_week (trailing_date Date_parse_metric ''2025-06-12'' i) \<noteq> None"
  unfolding all_less_TRAILING_DAYS
  by (simp add: script_eval tvl_full_week_def number_eval date_eval)

lemma full_week_end_index:
  "calculateTrailingAverageTvl Date_parse_metric tvl_full_week ''2025-06-12'' = Finite 4"
  unfolding calculateTrailingAverageTvl_def Let_def
  by (simp add: script_eval tvl_full_week_def number_eval date_eval)

lemma fsub_1_0: "fsub (Finite 1) (Finite 0) = Finite 1"
  by (simp add: number_eval)

lemma fsub_7_0: "fsub (Finite 7) (Finite 0) = Finite 7"
  by (simp add: number_eval)

lemma Math_round_7: "Math_round (Finite 7) = Finite 7"
proof -
  have "\<lfloor>(7::rat) + 1 / 2\<rfloor> = 7"
    by (rule floor_unique) simp_all
  then show ?thesis by simp
qed

lemma Math_round_0: "Math_round (Finite 0) = Finite 0"
proof -
  have "\<lfloor>(0::rat) + 1 / 2\<rfloor> = 0"
    by (rule floor_unique) simp_all
  then show ?thesis by simp
qed

section \<open>The loops in closed form\<close>




lemma getTvlOnDate_loop_no_item:
  assumes "\<forall>(chain, entry)\<in>set cs.
             split_first chain \<in> MAJOR_SUPERCHAIN_L2S \<longrightarrow> \<not> has_item entry ts"
  shows "getTvlOnDate_loop ts cs tot = tot"
  using assms by (induction cs arbitrary: tot) (auto simp: has_item_def split: option.split)

lemma getTvlOnDate_csv_loop_no_item:
  assumes "\<forall>(chain, entry)\<in>set cs. chain \<in> MAJOR_SUPERCHAIN_L2S \<longrightarrow> \<not> has_item entry ts"
  shows "getTvlOnDate_csv_loop ts cs (tot, h) = (tot, h)"
  using assms by (induction cs arbitrary: tot h) (auto simp: has_item_def split: option.split)

lemma getTvlOnDate_no_item:
  assumes "\<forall>(chain, entry)\<in>set (chainTvls data).
             split_first chain \<in> MAJOR_SUPERCHAIN_L2S \<longrightarrow> \<not> has_item entry (targetTimestamp d)"
  shows "getTvlOnDate data d = Finite 0"
  unfolding getTvlOnDate_def using assms by (rule getTvlOnDate_loop_no_item)

lemma getTvlOnDate_csv_no_item:
  assumes "\<forall>(chain, entry)\<in>set (chainTvls data).
             chain \<in> MAJOR_SUPERCHAIN_L2S \<longrightarrow> \<not> has_item entry (targetTimestamp d)"
  shows "getTvlOnDate_csv data d = None"
  unfolding getTvlOnDate_csv_def using getTvlOnDate_csv_loop_no_item [OF assms] by simp

text \<open>No name in \<open>MAJOR_SUPERCHAIN_L2S\<close> contains a \<open>-\<close>.\<close>

lemma major_no_dash: "chain \<in> MAJOR_SUPERCHAIN_L2S \<Longrightarrow> split_first chain = chain"
  by (auto simp: MAJOR_SUPERCHAIN_L2S_def split_first_def)


text \<open>The day loops are left folds over the days \<open>i, i + 1, ..., TRAILING_DAYS - 1\<close>.\<close>

lemma loop_foldl:
  "calculateTrailingAverageTvl_loop data endDate i tot =
     foldl fadd tot
       (map (\<lambda>j. getTvlOnDate data (setUTCDate_back endDate j)) [i..<TRAILING_DAYS])"
proof (induction data endDate i tot rule: calculateTrailingAverageTvl_loop.induct)
  case (1 data endDate i tot)
  show ?case
  proof (cases "i < TRAILING_DAYS")
    case True
    then show ?thesis
      using 1 by (subst calculateTrailingAverageTvl_loop.simps) (simp add: upt_conv_Cons)
  next
    case False
    then show ?thesis
      by (subst calculateTrailingAverageTvl_loop.simps) simp
  qed
qed

lemma csv_loop_foldl:
  "calculateTrailingAverageTvl_csv_loop data endDate i acc =
     foldl csv_step acc
       (map (\<lambda>j. getTvlOnDate_csv data (setUTCDate_back endDate j)) [i..<TRAILING_DAYS])"
proof (induction data endDate i acc rule: calculateTrailingAverageTvl_csv_loop.induct)
  case (1 data endDate i tot n)
  show ?case
  proof (cases "i < TRAILING_DAYS")
    case True
    then show ?thesis
      using 1 by (subst calculateTrailingAverageTvl_csv_loop.simps)
        (simp add: upt_conv_Cons split: option.split)
  next
    case False
    then show ?thesis
      by (subst calculateTrailingAverageTvl_csv_loop.simps) simp
  qed
qed

lemma foldl_csv_step:
  "foldl csv_step (tot, n) os =
     (foldl fadd tot (List.map_filter id os), n + length (List.map_filter id os))"
proof (induction os arbitrary: tot n)
  case Nil
  show ?case by (simp add: List.map_filter_simps)
next
  case (Cons a os)
  show ?case by (cases a) (simp_all add: Cons List.map_filter_simps)
qed

lemma map_filter_id_map: "List.map_filter id (map f xs) = List.map_filter f xs"
  by (induction xs) (simp_all add: List.map_filter_simps split: option.split)

lemma map_filter_all_None: "\<forall>x\<in>set xs. f x = None \<Longrightarrow> List.map_filter f xs = []"
  by (induction xs) (simp_all add: List.map_filter_simps)

lemma map_filter_all_Some:
  "\<forall>x\<in>set xs. f x = Some (g x) \<Longrightarrow> List.map_filter f xs = map g xs"
  by (induction xs) (simp_all add: List.map_filter_simps)

lemma trailing_average_index:
  "calculateTrailingAverageTvl Date_parse data endDateStr =
     fdiv (foldl fadd (Finite 0)
             (map (\<lambda>i. getTvlOnDate data (trailing_date Date_parse endDateStr i))
                [0..<TRAILING_DAYS]))
          (Finite 7)"
  by (simp add: calculateTrailingAverageTvl_def loop_foldl trailing_date_def)
     (simp add: TRAILING_DAYS_def)

lemma trailing_average_csv:
  "calculateTrailingAverageTvl_csv Date_parse data endDateStr =
     (let vals = List.map_filter
                   (\<lambda>i. getTvlOnDate_csv data (trailing_date Date_parse endDateStr i))
                   [0..<TRAILING_DAYS]
      in if vals = [] then Finite 0
         else fdiv (foldl fadd (Finite 0) vals) (Finite (of_nat (length vals))))"
  by (simp add: calculateTrailingAverageTvl_csv_def csv_loop_foldl foldl_csv_step
      map_filter_id_map trailing_date_def Let_def)

lemma fadd_zero_zero: "fadd (Finite 0) (Finite 0) = Finite 0"
  by (simp add: fadd_def is_inf_def is_zero_def)

lemma fdiv_zero_7: "fdiv (Finite 0) (Finite 7) = Finite 0"
  by (simp add: fdiv_def is_inf_def is_zero_def signed_zero_def)

lemma foldl_fadd_zeros:
  "\<forall>x\<in>set xs. x = Finite 0 \<Longrightarrow> foldl fadd (Finite 0) xs = Finite 0"
  by (induction xs) (simp_all add: fadd_zero_zero)

lemma upt_TRAILING_DAYS: "[0..<TRAILING_DAYS] = [0, 1, 2, 3, 4, 5, 6]"
  by (simp add: TRAILING_DAYS_def upt_rec)

section \<open>The scripts on the response as it arrives\<close>

text \<open>
  On a response of the declared interface the functions on the response as it arrives
  return what the functions on the interface return, and nothing throws.
\<close>

lemma find_raw_Item:
  "find_raw ts (map Item xs) = Inr (find (\<lambda>d. strict_eq (date d) ts) xs)"
  by (induction xs) simp_all

lemma getTvlOnDate_raw_loop_of:
  "getTvlOnDate_raw_loop ts (map (\<lambda>(chain, entry). (chain, raw_entry_of entry)) cs) tot =
     Inr (getTvlOnDate_loop ts cs tot)"
  by (induction cs arbitrary: tot)
    (auto simp add: raw_entry_of_def find_raw_Item split: option.split)

lemma getTvlOnDate_raw_of:
  "getTvlOnDate_raw (raw_of data) d = Inr (getTvlOnDate data d)"
  by (simp add: getTvlOnDate_raw_def raw_of_def getTvlOnDate_def getTvlOnDate_raw_loop_of)

lemma getTvlOnDate_csv_raw_loop_of:
  "getTvlOnDate_csv_raw_loop ts (map (\<lambda>(chain, entry). (chain, raw_entry_of entry)) cs) (tot, h) =
     Inr (getTvlOnDate_csv_loop ts cs (tot, h))"
  by (induction cs arbitrary: tot h)
    (auto simp add: raw_entry_of_def find_raw_Item split: option.split)

lemma getTvlOnDate_csv_raw_of:
  "getTvlOnDate_csv_raw (raw_of data) d = Inr (getTvlOnDate_csv data d)"
  by (simp add: getTvlOnDate_csv_raw_def raw_of_def getTvlOnDate_csv_def
      getTvlOnDate_csv_raw_loop_of split: prod.split)

lemma calculateTrailingAverageTvl_raw_loop_of:
  "calculateTrailingAverageTvl_raw_loop (raw_of data) endDate i tot =
     Inr (calculateTrailingAverageTvl_loop data endDate i tot)"
proof (induction data endDate i tot rule: calculateTrailingAverageTvl_loop.induct)
  case (1 data endDate i tot)
  then show ?case
    by (subst calculateTrailingAverageTvl_raw_loop.simps,
        subst calculateTrailingAverageTvl_loop.simps)
      (simp add: getTvlOnDate_raw_of)
qed

lemma calculateTrailingAverageTvl_raw_of:
  "calculateTrailingAverageTvl_raw Date_parse (raw_of data) endDateStr =
     Inr (calculateTrailingAverageTvl Date_parse data endDateStr)"
  by (simp add: calculateTrailingAverageTvl_raw_def calculateTrailingAverageTvl_def
      calculateTrailingAverageTvl_raw_loop_of Let_def)

lemma calculateTrailingAverageTvl_csv_raw_loop_of:
  "calculateTrailingAverageTvl_csv_raw_loop (raw_of data) endDate i acc =
     Inr (calculateTrailingAverageTvl_csv_loop data endDate i acc)"
proof (induction data endDate i acc rule: calculateTrailingAverageTvl_csv_loop.induct)
  case (1 data endDate i tot n)
  then show ?case
    by (subst calculateTrailingAverageTvl_csv_raw_loop.simps,
        subst calculateTrailingAverageTvl_csv_loop.simps)
      (simp add: getTvlOnDate_csv_raw_of split: option.split)
qed

lemma calculateTrailingAverageTvl_csv_raw_of:
  "calculateTrailingAverageTvl_csv_raw Date_parse (raw_of data) endDateStr =
     Inr (calculateTrailingAverageTvl_csv Date_parse data endDateStr)"
  by (simp add: calculateTrailingAverageTvl_csv_raw_def calculateTrailingAverageTvl_csv_def
      calculateTrailingAverageTvl_csv_raw_loop_of Let_def split: prod.split)

lemma process_project_of:
  "fetch slug = Inr (raw_of data) \<Longrightarrow>
   process_project Date_parse fetch slug =
     Inr (fsub (calculateTrailingAverageTvl Date_parse data METRIC_END_DATE)
               (calculateTrailingAverageTvl Date_parse data METRIC_START_DATE))"
  by (simp add: process_project_def calculateTrailingAverageTvl_raw_of)

lemma process_project_csv_of:
  "fetch slug = Inr (raw_of data) \<Longrightarrow>
   process_project_csv Date_parse fetch slug =
     Inr (calculateTrailingAverageTvl_csv Date_parse data METRIC_START_DATE,
          calculateTrailingAverageTvl_csv Date_parse data METRIC_END_DATE,
          fsub (calculateTrailingAverageTvl_csv Date_parse data METRIC_END_DATE)
               (calculateTrailingAverageTvl_csv Date_parse data METRIC_START_DATE))"
  by (simp add: process_project_csv_def calculateTrailingAverageTvl_csv_raw_of)

text \<open>
  When they throw: \<open>getTvlOnDate\<close> throws exactly when the response is \<open>null\<close> or
  reading a counted chain entry throws, \<open>calculateTrailingAverageTvl\<close> exactly when
  \<open>getTvlOnDate\<close> throws for one of the seven days, and the body of the \<open>try\<close>
  block exactly when the fetch throws or one of its two calls of
  \<open>calculateTrailingAverageTvl\<close> does.
\<close>

lemma getTvlOnDate_raw_loop_throws:
  "isl (getTvlOnDate_raw_loop ts cs tot) \<longleftrightarrow>
     (\<exists>(chain, entry)\<in>set cs. counted_index chain \<and> entry_throws ts entry)"
proof (induction cs arbitrary: tot)
  case Nil
  show ?case by simp
next
  case (Cons c cs)
  obtain chain entry where c: "c = (chain, entry)" by (cases c)
  show ?case
  proof (cases "split_first chain \<in> MAJOR_SUPERCHAIN_L2S")
    case False
    then show ?thesis
      by (simp add: c Cons.IH counted_index_def)
  next
    case True
    show ?thesis
    proof (cases "entry_throws ts entry")
      case True
      with \<open>split_first chain \<in> MAJOR_SUPERCHAIN_L2S\<close> show ?thesis
        by (auto simp add: c counted_index_def entry_throws_def
            split: raw_entry.splits option.splits sum.splits)
    next
      case False
      then obtain tvlData where e: "entry = Entry (Some tvlData)"
        and n: "\<not> isl (find_raw ts tvlData)"
        by (auto simp add: entry_throws_def split: raw_entry.splits option.splits)
      then obtain r where r: "find_raw ts tvlData = Inr r"
        by (cases "find_raw ts tvlData") auto
      show ?thesis
        using True False by (cases r) (simp_all add: c e r Cons.IH counted_index_def)
    qed
  qed
qed

lemma getTvlOnDate_csv_raw_loop_throws:
  "isl (getTvlOnDate_csv_raw_loop ts cs acc) \<longleftrightarrow>
     (\<exists>(chain, entry)\<in>set cs. counted_csv chain \<and> entry_throws ts entry)"
proof (induction cs arbitrary: acc)
  case Nil
  show ?case by (cases acc) simp
next
  case (Cons c cs)
  obtain chain entry where c: "c = (chain, entry)" by (cases c)
  obtain tot h where acc: "acc = (tot, h)" by (cases acc)
  show ?case
  proof (cases "chain \<in> MAJOR_SUPERCHAIN_L2S")
    case False
    then show ?thesis
      by (simp add: c acc Cons.IH counted_csv_def)
  next
    case True
    show ?thesis
    proof (cases "entry_throws ts entry")
      case True
      with \<open>chain \<in> MAJOR_SUPERCHAIN_L2S\<close> show ?thesis
        by (auto simp add: c acc counted_csv_def entry_throws_def
            split: raw_entry.splits option.splits sum.splits)
    next
      case False
      then obtain tvlData where e: "entry = Entry (Some tvlData)"
        and n: "\<not> isl (find_raw ts tvlData)"
        by (auto simp add: entry_throws_def split: raw_entry.splits option.splits)
      then obtain r where r: "find_raw ts tvlData = Inr r"
        by (cases "find_raw ts tvlData") auto
      show ?thesis
        using True False by (cases r) (simp_all add: c acc e r Cons.IH counted_csv_def)
    qed
  qed
qed

lemma getTvlOnDate_raw_throws:
  "isl (getTvlOnDate_raw data d) \<longleftrightarrow> throws counted_index data (targetTimestamp d)"
  by (simp add: getTvlOnDate_raw_def throws_def getTvlOnDate_raw_loop_throws
      split: raw_response.split option.split)

lemma getTvlOnDate_csv_raw_throws:
  "isl (getTvlOnDate_csv_raw data d) \<longleftrightarrow> throws counted_csv data (targetTimestamp d)"
proof (cases data)
  case Null_response
  then show ?thesis by (simp add: getTvlOnDate_csv_raw_def throws_def)
next
  case (Response o_cs)
  show ?thesis
  proof (cases o_cs)
    case None
    then show ?thesis by (simp add: Response getTvlOnDate_csv_raw_def throws_def)
  next
    case (Some cs)
    have "isl (getTvlOnDate_csv_raw data d) \<longleftrightarrow>
            isl (getTvlOnDate_csv_raw_loop (targetTimestamp d) cs (Finite 0, False))"
      by (simp add: Response Some getTvlOnDate_csv_raw_def split: sum.split prod.split)
    then show ?thesis
      by (simp add: Response Some throws_def getTvlOnDate_csv_raw_loop_throws)
  qed
qed

lemma calculateTrailingAverageTvl_raw_loop_throws:
  "isl (calculateTrailingAverageTvl_raw_loop data endDate i tot) \<longleftrightarrow>
     (\<exists>j\<in>set [i..<TRAILING_DAYS]. isl (getTvlOnDate_raw data (setUTCDate_back endDate j)))"
proof (induction data endDate i tot rule: calculateTrailingAverageTvl_raw_loop.induct)
  case (1 data endDate i tot)
  show ?case
  proof (cases "i < TRAILING_DAYS")
    case True
    then show ?thesis
      using 1 by (subst calculateTrailingAverageTvl_raw_loop.simps)
        (auto simp add: upt_conv_Cons split: sum.split)
  next
    case False
    then show ?thesis
      by (subst calculateTrailingAverageTvl_raw_loop.simps) simp
  qed
qed

lemma calculateTrailingAverageTvl_csv_raw_loop_throws:
  "isl (calculateTrailingAverageTvl_csv_raw_loop data endDate i acc) \<longleftrightarrow>
     (\<exists>j\<in>set [i..<TRAILING_DAYS]. isl (getTvlOnDate_csv_raw data (setUTCDate_back endDate j)))"
proof (induction data endDate i acc rule: calculateTrailingAverageTvl_csv_raw_loop.induct)
  case (1 data endDate i tot n)
  show ?case
  proof (cases "i < TRAILING_DAYS")
    case True
    then show ?thesis
      using 1 by (subst calculateTrailingAverageTvl_csv_raw_loop.simps)
        (auto simp add: upt_conv_Cons split: sum.split option.split)
  next
    case False
    then show ?thesis
      by (subst calculateTrailingAverageTvl_csv_raw_loop.simps) simp
  qed
qed

lemma calculateTrailingAverageTvl_raw_throws:
  "isl (calculateTrailingAverageTvl_raw Date_parse data endDateStr) \<longleftrightarrow>
     window_throws counted_index Date_parse data endDateStr"
proof -
  have "isl (calculateTrailingAverageTvl_raw Date_parse data endDateStr) \<longleftrightarrow>
          isl (calculateTrailingAverageTvl_raw_loop data
                 (new_Date Date_parse (endDateStr @ ''T00:00:00Z'')) 0 (Finite 0))"
    by (simp add: calculateTrailingAverageTvl_raw_def Let_def split: sum.split)
  then show ?thesis
    by (simp only: calculateTrailingAverageTvl_raw_loop_throws getTvlOnDate_raw_throws
        window_throws_def trailing_date_def)
qed

lemma calculateTrailingAverageTvl_csv_raw_throws:
  "isl (calculateTrailingAverageTvl_csv_raw Date_parse data endDateStr) \<longleftrightarrow>
     window_throws counted_csv Date_parse data endDateStr"
proof -
  have "isl (calculateTrailingAverageTvl_csv_raw Date_parse data endDateStr) \<longleftrightarrow>
          isl (calculateTrailingAverageTvl_csv_raw_loop data
                 (new_Date Date_parse (endDateStr @ ''T00:00:00Z'')) 0 (Finite 0, 0))"
    by (simp add: calculateTrailingAverageTvl_csv_raw_def Let_def split: sum.split prod.split)
  then show ?thesis
    by (simp only: calculateTrailingAverageTvl_csv_raw_loop_throws getTvlOnDate_csv_raw_throws
        window_throws_def trailing_date_def)
qed

lemma process_project_throws:
  "isl (process_project Date_parse fetch slug) \<longleftrightarrow>
     (case fetch slug of
        Inl err \<Rightarrow> True
      | Inr data \<Rightarrow>
          window_throws counted_index Date_parse data METRIC_END_DATE
          \<or> window_throws counted_index Date_parse data METRIC_START_DATE)"
proof (cases "fetch slug")
  case (Inl err)
  then show ?thesis by (simp add: process_project_def)
next
  case (Inr data)
  have "isl (process_project Date_parse fetch slug) \<longleftrightarrow>
          isl (calculateTrailingAverageTvl_raw Date_parse data METRIC_END_DATE)
          \<or> isl (calculateTrailingAverageTvl_raw Date_parse data METRIC_START_DATE)"
    by (simp add: process_project_def Inr split: sum.split)
  then show ?thesis
    by (simp only: calculateTrailingAverageTvl_raw_throws Inr sum.case)
qed

lemma process_project_csv_throws:
  "isl (process_project_csv Date_parse fetch slug) \<longleftrightarrow>
     (case fetch slug of
        Inl err \<Rightarrow> True
      | Inr data \<Rightarrow>
          window_throws counted_csv Date_parse data METRIC_END_DATE
          \<or> window_throws counted_csv Date_parse data METRIC_START_DATE)"
proof (cases "fetch slug")
  case (Inl err)
  then show ?thesis by (simp add: process_project_csv_def)
next
  case (Inr data)
  have "isl (process_project_csv Date_parse fetch slug) \<longleftrightarrow>
          isl (calculateTrailingAverageTvl_csv_raw Date_parse data METRIC_END_DATE)
          \<or> isl (calculateTrailingAverageTvl_csv_raw Date_parse data METRIC_START_DATE)"
    by (simp add: process_project_csv_def Inr split: sum.split)
  then show ?thesis
    by (simp only: calculateTrailingAverageTvl_csv_raw_throws Inr sum.case)
qed

text \<open>The scripts evaluated on \<open>raw_null_elsewhere\<close>.\<close>

lemmas raw_eval = calculateTrailingAverageTvl_raw_loop.simps
  calculateTrailingAverageTvl_csv_raw_loop.simps getTvlOnDate_raw_def getTvlOnDate_csv_raw_def

lemma null_elsewhere_end_index:
  "calculateTrailingAverageTvl_raw Date_parse_metric raw_null_elsewhere ''2025-06-12'' =
     Inr (Finite 1)"
  unfolding calculateTrailingAverageTvl_raw_def Let_def
  by (simp add: raw_eval script_eval raw_null_elsewhere_def number_eval date_eval)

lemma null_elsewhere_start_index:
  "calculateTrailingAverageTvl_raw Date_parse_metric raw_null_elsewhere ''2025-03-20'' =
     Inr (Finite 0)"
  unfolding calculateTrailingAverageTvl_raw_def Let_def
  by (simp add: raw_eval script_eval raw_null_elsewhere_def number_eval date_eval)

lemma null_elsewhere_end_csv:
  "calculateTrailingAverageTvl_csv_raw Date_parse_metric raw_null_elsewhere ''2025-06-12'' =
     Inr (Finite 7)"
  unfolding calculateTrailingAverageTvl_csv_raw_def Let_def
  by (simp add: raw_eval script_eval raw_null_elsewhere_def number_eval date_eval)

lemma null_elsewhere_start_csv:
  "calculateTrailingAverageTvl_csv_raw Date_parse_metric raw_null_elsewhere ''2025-03-20'' =
     Inr (Finite 0)"
  unfolding calculateTrailingAverageTvl_csv_raw_def Let_def
  by (simp add: raw_eval script_eval raw_null_elsewhere_def number_eval date_eval)

text \<open>The slugs of the configured projects are distinct.\<close>

lemma PROJECTS_slugs_distinct:
  "distinct (map snd PROJECTS)" and "distinct (map snd PROJECTS_csv)"
  by (simp_all add: PROJECTS_def PROJECTS_csv_def)

section \<open>C2: a window without data\<close>

text \<open>
  C2, as amended. The claim asks for a hard failure when no sample remains. Neither script
  has one: when no chain counted by the script has an item on any of the seven days of
  the window, \<open>calculateTrailingAverageTvl\<close> returns the number \<open>0\<close>. In
  \<open>node/index.ts\<close> every day contributes \<open>0\<close> and the sum is divided by 7; in the
  second script the branch \<open>nonNullDays > 0 ? ... : 0\<close> returns \<open>0\<close>. The first
  script counts a chain by the part of its key before the first \<open>-\<close>, the second by
  the whole key.
\<close>

theorem no_data_returns_zero:
  "((\<forall>i<TRAILING_DAYS. \<forall>(chain, entry)\<in>set (chainTvls data).
        split_first chain \<in> MAJOR_SUPERCHAIN_L2S \<longrightarrow>
        \<not> has_item entry (targetTimestamp (trailing_date Date_parse endDateStr i)))
      \<longrightarrow> calculateTrailingAverageTvl Date_parse data endDateStr = Finite 0)
   \<and> ((\<forall>i<TRAILING_DAYS. \<forall>(chain, entry)\<in>set (chainTvls data).
        chain \<in> MAJOR_SUPERCHAIN_L2S \<longrightarrow>
        \<not> has_item entry (targetTimestamp (trailing_date Date_parse endDateStr i)))
      \<longrightarrow> calculateTrailingAverageTvl_csv Date_parse data endDateStr = Finite 0)"
proof (intro conjI impI)
  assume a: "\<forall>i<TRAILING_DAYS. \<forall>(chain, entry)\<in>set (chainTvls data).
        split_first chain \<in> MAJOR_SUPERCHAIN_L2S \<longrightarrow>
        \<not> has_item entry (targetTimestamp (trailing_date Date_parse endDateStr i))"
  have "\<forall>x\<in>set (map (\<lambda>i. getTvlOnDate data (trailing_date Date_parse endDateStr i))
          [0..<TRAILING_DAYS]). x = Finite 0"
    using a by (auto intro!: getTvlOnDate_no_item)
  then show "calculateTrailingAverageTvl Date_parse data endDateStr = Finite 0"
    by (simp only: trailing_average_index foldl_fadd_zeros fdiv_zero_7)
next
  assume a: "\<forall>i<TRAILING_DAYS. \<forall>(chain, entry)\<in>set (chainTvls data).
        chain \<in> MAJOR_SUPERCHAIN_L2S \<longrightarrow>
        \<not> has_item entry (targetTimestamp (trailing_date Date_parse endDateStr i))"
  have "\<forall>i\<in>set [0..<TRAILING_DAYS].
          getTvlOnDate_csv data (trailing_date Date_parse endDateStr i) = None"
    using a by (auto intro!: getTvlOnDate_csv_no_item)
  then have "List.map_filter
               (\<lambda>i. getTvlOnDate_csv data (trailing_date Date_parse endDateStr i))
               [0..<TRAILING_DAYS] = []"
    by (rule map_filter_all_None)
  then show "calculateTrailingAverageTvl_csv Date_parse data endDateStr = Finite 0"
    by (simp add: trailing_average_csv)
qed

text \<open>
  The theorem on the response \<open>tvl_end_only\<close> and the window that ends on 2025-03-20:
  its only item is dated 2025-06-12.
\<close>

lemma end_only_no_item_start:
  "\<forall>i<TRAILING_DAYS. \<forall>(chain, entry)\<in>set (chainTvls tvl_end_only).
      \<not> has_item entry (targetTimestamp (trailing_date Date_parse_metric ''2025-03-20'' i))"
  unfolding all_less_TRAILING_DAYS
  by (simp add: tvl_end_only_def has_item_def number_eval date_eval)

theorem no_data_returns_zero_witness:
  "calculateTrailingAverageTvl Date_parse_metric tvl_end_only ''2025-03-20'' = Finite 0
   \<and> calculateTrailingAverageTvl_csv Date_parse_metric tvl_end_only ''2025-03-20'' = Finite 0"
  using no_data_returns_zero [of tvl_end_only Date_parse_metric "''2025-03-20''"]
    end_only_no_item_start
  by blast

text \<open>
  C2 as stated fails: on a response without any chain, both scripts return the number
  \<open>0\<close> for the window that ends on 2025-06-12, and no error.
\<close>

theorem zero_sample_guard_counterexample:
  "calculateTrailingAverageTvl Date_parse_metric \<lparr>chainTvls = []\<rparr> ''2025-06-12'' = Finite 0
   \<and> calculateTrailingAverageTvl_csv Date_parse_metric \<lparr>chainTvls = []\<rparr> ''2025-06-12'' = Finite 0"
proof
  show "calculateTrailingAverageTvl Date_parse_metric \<lparr>chainTvls = []\<rparr> ''2025-06-12'' = Finite 0"
    unfolding calculateTrailingAverageTvl_def Let_def
    by (simp add: script_eval number_eval date_eval)
  show "calculateTrailingAverageTvl_csv Date_parse_metric \<lparr>chainTvls = []\<rparr> ''2025-06-12'' = Finite 0"
    unfolding calculateTrailingAverageTvl_csv_def Let_def
    by (simp add: script_eval number_eval date_eval)
qed

section \<open>C3: the divisor of the average\<close>

text \<open>
  C3, as amended. The second script returns the sum of the daily totals of the days that
  have data, divided by the number of these days (and \<open>0\<close> when there is none).
  \<open>node/index.ts\<close> returns the sum of the seven daily totals divided by the constant 7,
  and there the total of a day without data is \<open>0\<close>. The sums are floating-point sums,
  added from \<open>0\<close> in the order of the loop.
\<close>

theorem trailing_average_divisor:
  "calculateTrailingAverageTvl_csv Date_parse data endDateStr =
     (let vals = List.map_filter
                   (\<lambda>i. getTvlOnDate_csv data (trailing_date Date_parse endDateStr i))
                   [0..<TRAILING_DAYS]
      in if vals = [] then Finite 0
         else fdiv (foldl fadd (Finite 0) vals) (Finite (of_nat (length vals))))
   \<and> calculateTrailingAverageTvl Date_parse data endDateStr =
     fdiv (foldl fadd (Finite 0)
             (map (\<lambda>i. getTvlOnDate data (trailing_date Date_parse endDateStr i))
                [0..<TRAILING_DAYS]))
          (Finite 7)
   \<and> ((\<forall>(chain, entry)\<in>set (chainTvls data).
          split_first chain \<in> MAJOR_SUPERCHAIN_L2S \<longrightarrow> \<not> has_item entry (targetTimestamp d))
        \<longrightarrow> getTvlOnDate data d = Finite 0)"
  using trailing_average_csv [of Date_parse data endDateStr]
    trailing_average_index [of Date_parse data endDateStr]
    getTvlOnDate_no_item [of data d]
  by blast

lemma end_only_days_csv:
  "List.map_filter (\<lambda>i. getTvlOnDate_csv tvl_end_only (trailing_date Date_parse_metric ''2025-06-12'' i))
     [0..<TRAILING_DAYS] = [Finite 7]"
  unfolding upt_TRAILING_DAYS List.map_filter_simps
  by (simp add: script_eval tvl_end_only_def number_eval date_eval)

lemma end_only_days_index:
  "map (\<lambda>i. getTvlOnDate tvl_end_only (trailing_date Date_parse_metric ''2025-06-12'' i))
     [0..<TRAILING_DAYS] =
   [Finite 7, Finite 0, Finite 0, Finite 0, Finite 0, Finite 0, Finite 0]"
  unfolding upt_TRAILING_DAYS list.map
  by (simp add: script_eval tvl_end_only_def number_eval date_eval)

lemma end_only_no_item_day1:
  "\<forall>(chain, entry)\<in>set (chainTvls tvl_end_only).
      split_first chain \<in> MAJOR_SUPERCHAIN_L2S \<longrightarrow>
      \<not> has_item entry (targetTimestamp (trailing_date Date_parse_metric ''2025-06-12'' 1))"
  by (simp add: tvl_end_only_def has_item_def number_eval date_eval)

text \<open>
  The theorem on \<open>tvl_end_only\<close> and the window that ends on 2025-06-12: one day with
  data in the second script, seven terms in \<open>node/index.ts\<close>, and no data on the day
  before the end date.
\<close>

theorem trailing_average_divisor_witness:
  "calculateTrailingAverageTvl_csv Date_parse_metric tvl_end_only ''2025-06-12'' =
     fdiv (foldl fadd (Finite 0) [Finite 7]) (Finite 1)
   \<and> calculateTrailingAverageTvl Date_parse_metric tvl_end_only ''2025-06-12'' =
     fdiv (foldl fadd (Finite 0)
             [Finite 7, Finite 0, Finite 0, Finite 0, Finite 0, Finite 0, Finite 0])
          (Finite 7)
   \<and> getTvlOnDate tvl_end_only (trailing_date Date_parse_metric ''2025-06-12'' 1) = Finite 0"
  using trailing_average_divisor [of Date_parse_metric tvl_end_only "''2025-06-12''"
      "trailing_date Date_parse_metric ''2025-06-12'' 1"]
    end_only_no_item_day1
  by (simp add: end_only_days_csv end_only_days_index)

text \<open>
  C3 as stated fails for \<open>node/index.ts\<close>: on \<open>tvl_end_only\<close> only the end date has
  data, with the daily total 7, so the claim asks for \<open>7 / 1 = 7\<close>; the script returns
  \<open>7 / 7 = 1\<close>.
\<close>

theorem mean_over_retained_days_counterexample:
  "map (\<lambda>i. getTvlOnDate tvl_end_only (trailing_date Date_parse_metric ''2025-06-12'' i))
     [0..<TRAILING_DAYS] =
   [Finite 7, Finite 0, Finite 0, Finite 0, Finite 0, Finite 0, Finite 0]
   \<and> calculateTrailingAverageTvl Date_parse_metric tvl_end_only ''2025-06-12'' = Finite 1
   \<and> fdiv (foldl fadd (Finite 0) [Finite 7]) (Finite 1) = Finite 7"
  by (simp add: end_only_days_index end_only_end_index) (simp add: number_eval)

section \<open>C4: floating-point arithmetic\<close>

text \<open>The running total of a day is the left fold of \<open>+\<close> over the retained values.\<close>

lemma retained_Nil: "retained counted [] ts = []"
  by (simp add: retained_def List.map_filter_simps)

lemma retained_Cons:
  "retained counted ((chain, entry) # cs) ts =
     (if counted chain then
        (case find (\<lambda>d. strict_eq (date d) ts) (tvl entry) of
           Some d \<Rightarrow> totalLiquidityUSD d # retained counted cs ts
         | None \<Rightarrow> retained counted cs ts)
      else retained counted cs ts)"
  by (simp add: retained_def List.map_filter_simps split: option.split)

lemma getTvlOnDate_loop_retained:
  "getTvlOnDate_loop ts cs tot = foldl fadd tot (retained counted_index cs ts)"
  by (induction cs arbitrary: tot)
    (auto simp: retained_Nil retained_Cons counted_index_def split: option.split)

lemma getTvlOnDate_csv_loop_retained:
  "getTvlOnDate_csv_loop ts cs (tot, h) =
     (foldl fadd tot (retained counted_csv cs ts), h \<or> retained counted_csv cs ts \<noteq> [])"
  by (induction cs arbitrary: tot h)
    (auto simp: retained_Nil retained_Cons counted_csv_def split: option.split)

lemma integralE:
  assumes "integral x"
  obtains n where "x = Finite (of_int n)"
  using assms by (auto simp: integral_def split: number.splits)

lemma integral_of_int: "integral (Finite (of_int n))"
  by (simp add: integral_def)

lemma fadd_int:
  assumes "\<bar>a + b\<bar> < 2 ^ 53"
  shows "fadd (Finite (of_int a)) (Finite (of_int b)) = Finite (of_int (a + b))"
proof -
  have "round_number (of_int a + of_int b) = Finite (of_int (a + b))"
    using round_number_int [OF assms] by simp
  then show ?thesis
    by (auto simp: fadd_def is_inf_def is_zero_def)
qed

lemma foldl_fadd_int:
  assumes "\<forall>x\<in>set xs. integral x"
    and "\<bar>of_int a\<bar> + (\<Sum>x\<leftarrow>xs. \<bar>val x\<bar>) < (2::rat) ^ 53"
  shows "foldl fadd (Finite (of_int a)) xs = Finite (of_int a + (\<Sum>x\<leftarrow>xs. val x))
       \<and> integral (foldl fadd (Finite (of_int a)) xs)"
  using assms
proof (induction xs arbitrary: a)
  case Nil
  show ?case by (simp add: integral_of_int)
next
  case (Cons x xs)
  obtain b where b: "x = Finite (of_int b)"
    using Cons.prems(1) by (auto elim: integralE)
  have bound: "\<bar>rat_of_int a\<bar> + \<bar>of_int b\<bar> + (\<Sum>x\<leftarrow>xs. \<bar>val x\<bar>) < 2 ^ 53"
    using Cons.prems(2) by (simp add: b)
  have nn: "0 \<le> (\<Sum>x\<leftarrow>xs. \<bar>val x\<bar>)"
    by (rule sum_list_nonneg) auto
  have "\<bar>rat_of_int (a + b)\<bar> < 2 ^ 53"
    using bound nn by simp
  then have ab: "\<bar>a + b\<bar> < 2 ^ 53"
    by (metis of_int_abs of_int_less_iff of_int_numeral of_int_power)
  have step: "fadd (Finite (of_int a)) (Finite (of_int b)) = Finite (of_int (a + b))"
    using fadd_int [OF ab] by simp
  have rest: "\<bar>rat_of_int (a + b)\<bar> + (\<Sum>x\<leftarrow>xs. \<bar>val x\<bar>) < 2 ^ 53"
    using bound by simp
  have ints: "\<forall>x\<in>set xs. integral x"
    using Cons.prems(1) by simp
  have e: "foldl fadd (Finite (of_int a)) (x # xs) = foldl fadd (Finite (of_int (a + b))) xs"
    by (simp only: foldl_Cons b step)
  have r1: "foldl fadd (Finite (of_int (a + b))) xs =
              Finite (of_int (a + b) + (\<Sum>x\<leftarrow>xs. val x))"
    and r2: "integral (foldl fadd (Finite (of_int (a + b))) xs)"
    using Cons.IH [OF ints rest] by blast+
  show ?case
  proof
    show "foldl fadd (Finite (of_int a)) (x # xs) =
            Finite (of_int a + (\<Sum>x\<leftarrow>x # xs. val x))"
      unfolding e r1 by (simp add: b)
    show "integral (foldl fadd (Finite (of_int a)) (x # xs))"
      unfolding e by (rule r2)
  qed
qed

lemma find_in_set: "find P xs = Some d \<Longrightarrow> d \<in> set xs"
  by (auto simp: find_Some_iff)

lemma retained_integral:
  assumes "\<forall>(chain, entry)\<in>set cs. \<forall>d\<in>set (tvl entry). integral (totalLiquidityUSD d)"
  shows "\<forall>x\<in>set (retained counted cs ts). integral x"
  using assms
proof (induction cs)
  case Nil
  show ?case by (simp add: retained_Nil)
next
  case (Cons c cs)
  obtain chain entry where c: "c = (chain, entry)" by (cases c)
  have IH: "\<forall>x\<in>set (retained counted cs ts). integral x"
    using Cons by simp
  have here: "\<forall>d\<in>set (tvl entry). integral (totalLiquidityUSD d)"
    using Cons.prems by (simp add: c)
  show ?case
  proof (cases "find (\<lambda>d. strict_eq (date d) ts) (tvl entry)")
    case None
    then show ?thesis using IH by (simp add: c retained_Cons)
  next
    case (Some d)
    then have "integral (totalLiquidityUSD d)"
      using here find_in_set by fastforce
    then show ?thesis using IH Some by (simp add: c retained_Cons)
  qed
qed

lemma item_le_sum:
  assumes "d \<in> set ds"
  shows "\<bar>val (totalLiquidityUSD d)\<bar> \<le> (\<Sum>d\<leftarrow>ds. \<bar>val (totalLiquidityUSD d)\<bar>)"
  using assms by (intro member_le_sum_list) auto

lemma retained_magnitude:
  "(\<Sum>x\<leftarrow>retained counted cs ts. \<bar>val x\<bar>) \<le> magnitude cs"
proof (induction cs)
  case Nil
  show ?case by (simp add: retained_Nil magnitude_def)
next
  case (Cons c cs)
  obtain chain entry where c: "c = (chain, entry)" by (cases c)
  have nn: "0 \<le> (\<Sum>d\<leftarrow>tvl entry. \<bar>val (totalLiquidityUSD d)\<bar>)"
    by (rule sum_list_nonneg) auto
  have IH: "(\<Sum>x\<leftarrow>retained counted cs ts. \<bar>val x\<bar>) \<le> magnitude cs"
    by (rule Cons.IH)
  show ?case
  proof (cases "counted chain")
    case False
    then show ?thesis
      using IH nn by (simp add: c retained_Cons magnitude_def)
  next
    case True
    show ?thesis
    proof (cases "find (\<lambda>d. strict_eq (date d) ts) (tvl entry)")
      case None
      then show ?thesis
        using IH nn True by (simp add: c retained_Cons magnitude_def)
    next
      case (Some d)
      then have "d \<in> set (tvl entry)"
        by (rule find_in_set)
      then have "\<bar>val (totalLiquidityUSD d)\<bar> \<le> (\<Sum>d\<leftarrow>tvl entry. \<bar>val (totalLiquidityUSD d)\<bar>)"
        by (rule item_le_sum)
      then show ?thesis
        using IH True Some by (simp add: c retained_Cons magnitude_def)
    qed
  qed
qed

lemma fdiv_finite:
  assumes "0 < k"
  shows "fdiv (Finite t) (Finite k) = round_number (t / k)"
  using assms by (simp add: fdiv_def is_inf_def is_zero_def signed_zero_def round_number_def)

lemma integral_val: "integral x \<Longrightarrow> x = Finite (val x)"
  by (auto elim: integralE)

lemma day_total_exact:
  assumes ints: "\<forall>x\<in>set xs. integral x"
    and bound: "(\<Sum>x\<leftarrow>xs. \<bar>val x\<bar>) < (2::rat) ^ 53"
  shows "foldl fadd (Finite 0) xs = Finite (\<Sum>x\<leftarrow>xs. val x)"
    and "integral (foldl fadd (Finite 0) xs)"
proof -
  have "\<bar>rat_of_int 0\<bar> + (\<Sum>x\<leftarrow>xs. \<bar>val x\<bar>) < 2 ^ 53"
    using bound by simp
  note r = foldl_fadd_int [OF ints this]
  show "foldl fadd (Finite 0) xs = Finite (\<Sum>x\<leftarrow>xs. val x)"
    using r [THEN conjunct1] by simp
  show "integral (foldl fadd (Finite 0) xs)"
    using r [THEN conjunct2] by simp
qed

lemma sum_list_abs_le: "\<bar>\<Sum>x\<leftarrow>xs. val x\<bar> \<le> (\<Sum>x\<leftarrow>xs. \<bar>val x\<bar>)"
  by (induction xs) (simp_all add: abs_triangle_ineq [THEN order_trans])

lemma sum_list_bounded:
  fixes f :: "'a \<Rightarrow> rat"
  assumes "\<forall>x\<in>set xs. f x \<le> m"
  shows "(\<Sum>x\<leftarrow>xs. f x) \<le> of_nat (length xs) * m"
  using assms by (induction xs) (simp_all add: algebra_simps add_mono)

lemma magnitude_nonneg: "0 \<le> magnitude cs"
  unfolding magnitude_def
  by (intro sum_list_nonneg) (auto intro!: sum_list_nonneg)

text \<open>The totals of a list of days, each exact, add up exactly.\<close>

lemma days_exact:
  assumes ints: "\<forall>(chain, entry)\<in>set (chainTvls data).
                   \<forall>d\<in>set (tvl entry). integral (totalLiquidityUSD d)"
    and bound: "of_nat (length days) * magnitude (chainTvls data) < 2 ^ 53"
    and day_total: "\<forall>d\<in>set days.
        day d = foldl fadd (Finite 0) (retained counted (chainTvls data) (targetTimestamp d))"
    and nonempty: "days \<noteq> []"
  shows "foldl fadd (Finite 0) (map day days) =
           Finite (\<Sum>d\<leftarrow>days. exact_total counted data d)"
proof -
  let ?m = "magnitude (chainTvls data)"
  have len: "1 \<le> (of_nat (length days) :: rat)"
    using nonempty by (cases days) simp_all
  have "1 * ?m \<le> of_nat (length days) * ?m"
    using len magnitude_nonneg [of "chainTvls data"] by (intro mult_right_mono) simp_all
  then have m53: "?m < 2 ^ 53"
    using bound by simp
  have each: "day d = Finite (exact_total counted data d)"
    and each_int: "integral (day d)"
    and each_le: "\<bar>val (day d)\<bar> \<le> ?m" if d: "d \<in> set days" for d
  proof -
    let ?xs = "retained counted (chainTvls data) (targetTimestamp d)"
    have i: "\<forall>x\<in>set ?xs. integral x"
      using ints by (rule retained_integral)
    have b: "(\<Sum>x\<leftarrow>?xs. \<bar>val x\<bar>) \<le> ?m"
      by (rule retained_magnitude)
    then have b53: "(\<Sum>x\<leftarrow>?xs. \<bar>val x\<bar>) < 2 ^ 53"
      using m53 by simp
    have dd: "day d = foldl fadd (Finite 0) ?xs"
      using day_total d by simp
    show v: "day d = Finite (exact_total counted data d)"
      unfolding dd exact_total_def using i b53 by (rule day_total_exact(1))
    show "integral (day d)"
      unfolding dd using i b53 by (rule day_total_exact(2))
    have "\<bar>\<Sum>x\<leftarrow>?xs. val x\<bar> \<le> ?m"
      using sum_list_abs_le [of ?xs] b by simp
    then show "\<bar>val (day d)\<bar> \<le> ?m"
      by (simp add: v exact_total_def)
  qed
  have ints': "\<forall>x\<in>set (map day days). integral x"
    using each_int by auto
  have "(\<Sum>x\<leftarrow>map day days. \<bar>val x\<bar>) = (\<Sum>d\<leftarrow>days. \<bar>val (day d)\<bar>)"
    by (simp add: comp_def)
  also have "\<dots> \<le> of_nat (length days) * ?m"
    using each_le by (intro sum_list_bounded) simp
  finally have bound': "(\<Sum>x\<leftarrow>map day days. \<bar>val x\<bar>) < 2 ^ 53"
    using bound by simp
  have "foldl fadd (Finite 0) (map day days) = Finite (\<Sum>x\<leftarrow>map day days. val x)"
    using ints' bound' by (rule day_total_exact(1))
  also have "(\<Sum>x\<leftarrow>map day days. val x) = (\<Sum>d\<leftarrow>days. exact_total counted data d)"
    using each by (simp add: comp_def cong: map_cong)
  finally show ?thesis .
qed

lemma getTvlOnDate_retained:
  "getTvlOnDate data d =
     foldl fadd (Finite 0) (retained counted_index (chainTvls data) (targetTimestamp d))"
  by (simp add: getTvlOnDate_def getTvlOnDate_loop_retained)

lemma getTvlOnDate_csv_retained:
  "getTvlOnDate_csv data d =
     (if retained counted_csv (chainTvls data) (targetTimestamp d) = [] then None
      else Some (foldl fadd (Finite 0)
                   (retained counted_csv (chainTvls data) (targetTimestamp d))))"
  by (simp add: getTvlOnDate_csv_def getTvlOnDate_csv_loop_retained)

lemma map_filter_if:
  "List.map_filter (\<lambda>i. if c i then None else Some (g i)) xs = map g (filter (\<lambda>i. \<not> c i) xs)"
  by (induction xs) (simp_all add: List.map_filter_simps)

lemma average_index_rounded:
  assumes ints: "\<forall>(chain, entry)\<in>set (chainTvls data).
                   \<forall>d\<in>set (tvl entry). integral (totalLiquidityUSD d)"
    and bound: "7 * magnitude (chainTvls data) < 2 ^ 53"
  shows "calculateTrailingAverageTvl Date_parse data endDateStr =
           round_number
             (exact_mean
                (map (\<lambda>i. exact_total counted_index data (trailing_date Date_parse endDateStr i))
                   [0..<TRAILING_DAYS]))"
proof -
  let ?td = "trailing_date Date_parse endDateStr"
  let ?days = "map ?td [0..<TRAILING_DAYS]"
  have len: "length ?days = 7"
    by (simp add: TRAILING_DAYS_def)
  have b: "of_nat (length ?days) * magnitude (chainTvls data) < 2 ^ 53"
    using bound by (simp only: len of_nat_numeral)
  have ne: "?days \<noteq> []"
    using len by auto
  have dt: "\<forall>d\<in>set ?days. getTvlOnDate data d =
          foldl fadd (Finite 0) (retained counted_index (chainTvls data) (targetTimestamp d))"
    by (simp add: getTvlOnDate_retained)
  have "foldl fadd (Finite 0) (map (getTvlOnDate data) ?days) =
          Finite (\<Sum>d\<leftarrow>?days. exact_total counted_index data d)"
    using ints b dt ne by (rule days_exact)
  then have "calculateTrailingAverageTvl Date_parse data endDateStr =
          fdiv (Finite (\<Sum>d\<leftarrow>?days. exact_total counted_index data d)) (Finite 7)"
    by (simp add: trailing_average_index comp_def)
  also have "\<dots> = round_number ((\<Sum>d\<leftarrow>?days. exact_total counted_index data d) / 7)"
    by (rule fdiv_finite) simp
  also have "(\<Sum>d\<leftarrow>?days. exact_total counted_index data d) / 7 =
          exact_mean (map (\<lambda>i. exact_total counted_index data (?td i)) [0..<TRAILING_DAYS])"
    by (simp add: exact_mean_def comp_def TRAILING_DAYS_def)
  finally show ?thesis .
qed

lemma average_csv_rounded:
  assumes ints: "\<forall>(chain, entry)\<in>set (chainTvls data).
                   \<forall>d\<in>set (tvl entry). integral (totalLiquidityUSD d)"
    and bound: "7 * magnitude (chainTvls data) < 2 ^ 53"
  shows "calculateTrailingAverageTvl_csv Date_parse data endDateStr =
           (let days = filter
                  (\<lambda>i. retained counted_csv (chainTvls data)
                         (targetTimestamp (trailing_date Date_parse endDateStr i)) \<noteq> [])
                  [0..<TRAILING_DAYS]
            in if days = [] then Finite 0
               else round_number
                  (exact_mean
                     (map (\<lambda>i. exact_total counted_csv data (trailing_date Date_parse endDateStr i))
                        days)))"
proof -
  let ?td = "trailing_date Date_parse endDateStr"
  let ?is = "filter (\<lambda>i. retained counted_csv (chainTvls data) (targetTimestamp (?td i)) \<noteq> [])
               [0..<TRAILING_DAYS]"
  let ?days = "map ?td ?is"
  let ?day = "\<lambda>d. foldl fadd (Finite 0) (retained counted_csv (chainTvls data) (targetTimestamp d))"
  have vals: "List.map_filter (\<lambda>i. getTvlOnDate_csv data (?td i)) [0..<TRAILING_DAYS] =
                map ?day ?days"
    by (simp add: getTvlOnDate_csv_retained map_filter_if comp_def)
  have "length ?is \<le> length [0..<TRAILING_DAYS]"
    by (rule length_filter_le)
  then have len: "length ?days \<le> 7"
    by (simp add: TRAILING_DAYS_def)
  then have "(of_nat (length ?days) :: rat) \<le> 7"
    by (metis of_nat_le_iff of_nat_numeral)
  then have "of_nat (length ?days) * magnitude (chainTvls data) \<le> 7 * magnitude (chainTvls data)"
    using magnitude_nonneg by (intro mult_right_mono)
  then have b: "of_nat (length ?days) * magnitude (chainTvls data) < 2 ^ 53"
    using bound by simp
  have goal: "calculateTrailingAverageTvl_csv Date_parse data endDateStr =
           (let days = ?is
            in if days = [] then Finite 0
               else round_number
                  (exact_mean (map (\<lambda>i. exact_total counted_csv data (?td i)) days)))"
  proof (cases "?is = []")
    case True
    then show ?thesis
      by (simp add: trailing_average_csv vals Let_def)
  next
    case False
    then have ne: "?days \<noteq> []" by simp
    have pos: "(0::rat) < of_nat (length ?days)"
      using ne by simp
    have dt: "\<forall>d\<in>set ?days. ?day d =
            foldl fadd (Finite 0) (retained counted_csv (chainTvls data) (targetTimestamp d))"
      by simp
    have "foldl fadd (Finite 0) (map ?day ?days) =
            Finite (\<Sum>d\<leftarrow>?days. exact_total counted_csv data d)"
      using ints b dt ne by (rule days_exact)
    then have "calculateTrailingAverageTvl_csv Date_parse data endDateStr =
            fdiv (Finite (\<Sum>d\<leftarrow>?days. exact_total counted_csv data d))
              (Finite (of_nat (length ?days)))"
      using False by (simp add: trailing_average_csv vals Let_def)
    also have "\<dots> = round_number
            ((\<Sum>d\<leftarrow>?days. exact_total counted_csv data d) / of_nat (length ?days))"
      using pos by (rule fdiv_finite)
    also have "(\<Sum>d\<leftarrow>?days. exact_total counted_csv data d) / of_nat (length ?days) =
            exact_mean (map (\<lambda>i. exact_total counted_csv data (?td i)) ?is)"
      by (simp add: exact_mean_def comp_def)
    finally show ?thesis
      using False by (simp add: Let_def)
  qed
  then show ?thesis .
qed

lemma fsub_finite:
  assumes "a \<noteq> 0" and "b \<noteq> 0"
  shows "fsub (Finite a) (Finite b) = round_number (a - b)"
  using assms by (simp add: fsub_def fadd_def is_inf_def is_zero_def)

text \<open>
  C4, as amended. The scripts compute with binary64 numbers, not with exact decimals:
  every sum, quotient and difference is the exact result rounded to the nearest binary64
  value. When every amount of the response is an integer and seven times the sum of the
  absolute values of all amounts is below \<open>2 ^ 53\<close>, no addition rounds, and
  \<open>calculateTrailingAverageTvl\<close> returns the exact mean rounded once: in
  \<open>node/index.ts\<close> the mean of the seven exact daily totals, in the second script the
  mean of the exact daily totals of the days with data (and \<open>0\<close> when there is none).
  In \<open>main\<close>, on a response of the interface (\<open>raw_of data\<close>), the difference of
  two finite averages other than zero is their exact difference rounded once.
\<close>

theorem average_of_integers_rounded_once:
  assumes ints: "\<forall>(chain, entry)\<in>set (chainTvls data).
                   \<forall>d\<in>set (tvl entry). integral (totalLiquidityUSD d)"
    and bound: "7 * magnitude (chainTvls data) < 2 ^ 53"
  shows "calculateTrailingAverageTvl Date_parse data endDateStr =
           round_number
             (exact_mean
                (map (\<lambda>i. exact_total counted_index data (trailing_date Date_parse endDateStr i))
                   [0..<TRAILING_DAYS]))
       \<and> calculateTrailingAverageTvl_csv Date_parse data endDateStr =
           (let days = filter
                  (\<lambda>i. retained counted_csv (chainTvls data)
                         (targetTimestamp (trailing_date Date_parse endDateStr i)) \<noteq> [])
                  [0..<TRAILING_DAYS]
            in if days = [] then Finite 0
               else round_number
                  (exact_mean
                     (map (\<lambda>i. exact_total counted_csv data (trailing_date Date_parse endDateStr i))
                        days)))
       \<and> (fetch slug = Inr (raw_of data) \<and>
            calculateTrailingAverageTvl Date_parse data METRIC_END_DATE = Finite a \<and>
            calculateTrailingAverageTvl Date_parse data METRIC_START_DATE = Finite b \<and>
            a \<noteq> 0 \<and> b \<noteq> 0 \<longrightarrow>
            process_project Date_parse fetch slug = Inr (round_number (a - b)))
       \<and> (fetch slug = Inr (raw_of data) \<and>
            calculateTrailingAverageTvl_csv Date_parse data METRIC_END_DATE = Finite a \<and>
            calculateTrailingAverageTvl_csv Date_parse data METRIC_START_DATE = Finite b \<and>
            a \<noteq> 0 \<and> b \<noteq> 0 \<longrightarrow>
            process_project_csv Date_parse fetch slug =
              Inr (Finite b, Finite a, round_number (a - b)))"
  using average_index_rounded [OF ints bound, of Date_parse endDateStr]
    average_csv_rounded [OF ints bound, of Date_parse endDateStr]
  by (simp add: process_project_of process_project_csv_of fsub_finite)

lemma three_days_index:
  "calculateTrailingAverageTvl Date_parse_metric tvl_three_days ''2025-06-12'' =
     Finite (2573485501354569 / 18014398509481984)"
  unfolding calculateTrailingAverageTvl_def Let_def
  by (simp add: script_eval tvl_three_days_def number_eval date_eval)

lemma three_days_csv:
  "calculateTrailingAverageTvl_csv Date_parse_metric tvl_three_days ''2025-06-12'' =
     Finite (6004799503160661 / 18014398509481984)"
  unfolding calculateTrailingAverageTvl_csv_def Let_def
  by (simp add: script_eval tvl_three_days_def number_eval date_eval)

lemma three_days_integral:
  "\<forall>(chain, entry)\<in>set (chainTvls tvl_three_days).
      \<forall>d\<in>set (tvl entry). integral (totalLiquidityUSD d)"
  by (simp add: tvl_three_days_def integral_def)

lemma three_days_magnitude: "7 * magnitude (chainTvls tvl_three_days) < 2 ^ 53"
  by (simp add: tvl_three_days_def magnitude_def)

lemma three_days_exact_index:
  "map (\<lambda>i. exact_total counted_index tvl_three_days
              (trailing_date Date_parse_metric ''2025-06-12'' i)) [0..<TRAILING_DAYS] =
   [1, 0, 0, 0, 0, 0, 0]"
  unfolding upt_TRAILING_DAYS list.map
  by (simp add: exact_total_def retained_Cons retained_Nil counted_index_def tvl_three_days_def
      split_first_def MAJOR_SUPERCHAIN_L2S_def number_eval date_eval)

lemma three_days_with_data:
  "filter (\<lambda>i. retained counted_csv (chainTvls tvl_three_days)
                 (targetTimestamp (trailing_date Date_parse_metric ''2025-06-12'' i)) \<noteq> [])
     [0..<TRAILING_DAYS] = [0, 1, 2]"
  unfolding upt_TRAILING_DAYS filter.simps
  by (simp add: retained_Cons retained_Nil counted_csv_def tvl_three_days_def
      MAJOR_SUPERCHAIN_L2S_def number_eval date_eval)

lemma three_days_exact_csv:
  "map (\<lambda>i. exact_total counted_csv tvl_three_days
              (trailing_date Date_parse_metric ''2025-06-12'' i)) [0, 1, 2] = [1, 0, 0]"
  unfolding list.map
  by (simp add: exact_total_def retained_Cons retained_Nil counted_csv_def tvl_three_days_def
      MAJOR_SUPERCHAIN_L2S_def number_eval date_eval)

lemma both_dates_index:
  "calculateTrailingAverageTvl Date_parse_metric tvl_both_dates METRIC_END_DATE = Finite 1"
  "calculateTrailingAverageTvl Date_parse_metric tvl_both_dates METRIC_START_DATE = Finite 2"
  unfolding calculateTrailingAverageTvl_def Let_def
  by (simp_all add: script_eval tvl_both_dates_def number_eval date_eval)

lemma both_dates_csv:
  "calculateTrailingAverageTvl_csv Date_parse_metric tvl_both_dates METRIC_END_DATE = Finite 7"
  "calculateTrailingAverageTvl_csv Date_parse_metric tvl_both_dates METRIC_START_DATE = Finite 14"
  unfolding calculateTrailingAverageTvl_csv_def Let_def
  by (simp_all add: script_eval tvl_both_dates_def number_eval date_eval)

lemma both_dates_integral:
  "\<forall>(chain, entry)\<in>set (chainTvls tvl_both_dates).
      \<forall>d\<in>set (tvl entry). integral (totalLiquidityUSD d)"
  by (simp add: tvl_both_dates_def integral_def)

lemma both_dates_magnitude: "7 * magnitude (chainTvls tvl_both_dates) < 2 ^ 53"
  by (simp add: tvl_both_dates_def magnitude_def)

text \<open>
  The theorem on \<open>tvl_three_days\<close> (daily totals 1, 0 and 0 on the three days with
  data) and, for the difference, on \<open>tvl_both_dates\<close> (averages 1 and 2 in
  \<open>node/index.ts\<close>, 7 and 14 in the second script).
\<close>

theorem average_of_integers_rounded_once_witness:
  "calculateTrailingAverageTvl Date_parse_metric tvl_three_days ''2025-06-12'' =
     round_number (exact_mean [1, 0, 0, 0, 0, 0, 0])
   \<and> calculateTrailingAverageTvl_csv Date_parse_metric tvl_three_days ''2025-06-12'' =
     round_number (exact_mean [1, 0, 0])
   \<and> process_project Date_parse_metric (\<lambda>slug. Inr (raw_of tvl_both_dates)) ''sushi'' =
     Inr (round_number (1 - 2))
   \<and> process_project_csv Date_parse_metric (\<lambda>slug. Inr (raw_of tvl_both_dates)) ''sushi'' =
     Inr (Finite 14, Finite 7, round_number (7 - 14))"
proof -
  note three = average_of_integers_rounded_once
    [where data = tvl_three_days and Date_parse = Date_parse_metric
      and endDateStr = "''2025-06-12''", OF three_days_integral three_days_magnitude]
  have a: "calculateTrailingAverageTvl Date_parse_metric tvl_three_days ''2025-06-12'' =
     round_number (exact_mean [1, 0, 0, 0, 0, 0, 0])"
    using three [THEN conjunct1] by (simp only: three_days_exact_index)
  have b: "calculateTrailingAverageTvl_csv Date_parse_metric tvl_three_days ''2025-06-12'' =
     round_number (exact_mean [1, 0, 0])"
    using three [THEN conjunct2, THEN conjunct1]
    by (simp only: three_days_with_data three_days_exact_csv Let_def list.distinct if_False)
  note index = average_of_integers_rounded_once
    [where data = tvl_both_dates and fetch = "\<lambda>slug. Inr (raw_of tvl_both_dates)" and slug = "''sushi''"
      and Date_parse = Date_parse_metric and a = 1 and b = 2,
      OF both_dates_integral both_dates_magnitude]
  have c: "process_project Date_parse_metric (\<lambda>slug. Inr (raw_of tvl_both_dates)) ''sushi'' =
     Inr (round_number (1 - 2))"
    using index [THEN conjunct2, THEN conjunct2, THEN conjunct1] both_dates_index by simp
  note csv = average_of_integers_rounded_once
    [where data = tvl_both_dates and fetch = "\<lambda>slug. Inr (raw_of tvl_both_dates)" and slug = "''sushi''"
      and Date_parse = Date_parse_metric and a = 7 and b = 14,
      OF both_dates_integral both_dates_magnitude]
  have d: "process_project_csv Date_parse_metric (\<lambda>slug. Inr (raw_of tvl_both_dates)) ''sushi'' =
     Inr (Finite 14, Finite 7, round_number (7 - 14))"
    using csv [THEN conjunct2, THEN conjunct2, THEN conjunct2] both_dates_csv by simp
  from a b c d show ?thesis by (intro conjI)
qed

text \<open>
  C4 as stated fails. On \<open>tvl_three_days\<close> the exact mean is \<open>1 / 7\<close> in
  \<open>node/index.ts\<close> and \<open>1 / 3\<close> in the second script; the scripts return the
  nearest binary64 values, \<open>2573485501354569 / 2 ^ 54\<close> and
  \<open>6004799503160661 / 2 ^ 54\<close>, which are not the exact means.
\<close>

theorem exact_arithmetic_counterexample:
  "calculateTrailingAverageTvl Date_parse_metric tvl_three_days ''2025-06-12'' =
     Finite (2573485501354569 / 18014398509481984)
   \<and> 2573485501354569 / 18014398509481984 \<noteq> exact_mean [1, 0, 0, 0, 0, 0, 0]
   \<and> calculateTrailingAverageTvl_csv Date_parse_metric tvl_three_days ''2025-06-12'' =
     Finite (6004799503160661 / 18014398509481984)
   \<and> 6004799503160661 / 18014398509481984 \<noteq> exact_mean [1, 0, 0]"
  by (simp add: three_days_index three_days_csv exact_mean_def)

section \<open>C5: the window of the mode Offset+Duration\<close>

lemma ceil_to_grid_aligned: "0 < grid \<Longrightarrow> ceil_to_grid grid t mod grid = 0"
  by (simp add: ceil_to_grid_def) (metis add.commute diff_add_cancel mod_add_self2 minus_mod_eq_mult_div mod_mult_self1_is_0 mod_self add_diff_eq diff_diff_eq2 mod_diff_left_eq diff_self mod_0)

lemma ceil_to_grid_bounds:
  assumes "0 < grid"
  shows "t \<le> ceil_to_grid grid t" and "ceil_to_grid grid t < t + grid"
proof -
  have "0 \<le> t mod grid" and "t mod grid < grid"
    using assms by simp_all
  then show "t \<le> ceil_to_grid grid t" and "ceil_to_grid grid t < t + grid"
    by (auto simp: ceil_to_grid_def)
qed

lemma ceil_to_grid_least:
  assumes "0 < grid" and "m mod grid = 0" and "t \<le> m"
  shows "ceil_to_grid grid t \<le> m"
proof (rule ccontr)
  assume "\<not> ceil_to_grid grid t \<le> m"
  then have lt: "m < ceil_to_grid grid t" by simp
  obtain k where k: "ceil_to_grid grid t = k * grid"
    using ceil_to_grid_aligned [OF assms(1), of t] by (metis mod_eq_0_iff_dvd dvd_def mult.commute)
  obtain j where j: "m = j * grid"
    using assms(2) by (metis mod_eq_0_iff_dvd dvd_def mult.commute)
  have "j < k" using lt assms(1) by (simp add: k j)
  then have "j + 1 \<le> k" by simp
  then have "(j + 1) * grid \<le> k * grid" using assms(1) by (simp add: mult_right_mono)
  then have "m + grid \<le> ceil_to_grid grid t" by (simp add: k j algebra_simps)
  then show False
    using ceil_to_grid_bounds(2) [OF assms(1), of t] assms(3) by simp
qed

text \<open>
  C5. In the mode Offset+Duration, for a positive grid spacing, the window starts at
  \<open>ceil_to_grid (anchor + cooldown)\<close> and ends \<open>duration\<close> later. The start is on
  the grid, not before \<open>anchor + cooldown\<close> and less than one grid step after it; it
  is the least such grid instant, and it is \<open>anchor + cooldown\<close> itself when that is
  on the grid. An instant is in the window exactly when \<open>start \<le> t < end\<close>: the end
  is not in the window, and the start is in it (the duration of a window being
  positive).
\<close>

theorem offset_duration_window:
  assumes "0 < grid"
  shows "window_start (resolve_offset_duration grid anchor cooldown duration) =
           ceil_to_grid grid (anchor + cooldown)
       \<and> window_end (resolve_offset_duration grid anchor cooldown duration) =
           ceil_to_grid grid (anchor + cooldown) + duration
       \<and> ceil_to_grid grid (anchor + cooldown) mod grid = 0
       \<and> anchor + cooldown \<le> ceil_to_grid grid (anchor + cooldown)
       \<and> ceil_to_grid grid (anchor + cooldown) < anchor + cooldown + grid
       \<and> (\<forall>m. m mod grid = 0 \<and> anchor + cooldown \<le> m \<longrightarrow>
              ceil_to_grid grid (anchor + cooldown) \<le> m)
       \<and> ((anchor + cooldown) mod grid = 0 \<longrightarrow>
              ceil_to_grid grid (anchor + cooldown) = anchor + cooldown)
       \<and> (\<forall>t. in_window (resolve_offset_duration grid anchor cooldown duration) t \<longleftrightarrow>
              ceil_to_grid grid (anchor + cooldown) \<le> t \<and>
              t < ceil_to_grid grid (anchor + cooldown) + duration)
       \<and> (in_window (resolve_offset_duration grid anchor cooldown duration)
            (window_start (resolve_offset_duration grid anchor cooldown duration)) \<longleftrightarrow>
          0 < duration)
       \<and> \<not> in_window (resolve_offset_duration grid anchor cooldown duration)
            (window_end (resolve_offset_duration grid anchor cooldown duration))"
  using assms ceil_to_grid_aligned [OF assms(1), of "anchor + cooldown"]
    ceil_to_grid_bounds [OF assms(1), of "anchor + cooldown"]
    ceil_to_grid_least [OF assms(1), of _ "anchor + cooldown"]
  by (auto simp: resolve_offset_duration_def in_window_def Let_def ceil_to_grid_def)

text \<open>
  The theorem for a grid of 60 seconds, the anchor 2025-09-18T17:03:50Z, a cooldown of
  two hours and a duration of twelve hours: the start is rounded up to 19:04:00Z.
\<close>

theorem offset_duration_window_witness:
  "window_start (resolve_offset_duration 60 1758215030 7200 43200) = 1758222240
   \<and> window_end (resolve_offset_duration 60 1758215030 7200 43200) = 1758265440
   \<and> in_window (resolve_offset_duration 60 1758215030 7200 43200) 1758222240
   \<and> \<not> in_window (resolve_offset_duration 60 1758215030 7200 43200) 1758265440"
  using offset_duration_window [of 60 1758215030 7200 43200]
  by (simp add: ceil_to_grid_def)

section \<open>C6: rounding half up\<close>

text \<open>
  C6. For a non-negative scalar the rounder returns \<open>floor(scalar * 100 + 1 / 2)\<close>: a
  non-negative integer at most \<open>1 / 2\<close> away from \<open>scalar * 100\<close>; a tie (the
  fraction of \<open>scalar * 100\<close> is exactly \<open>1 / 2\<close>) goes up to the next integer, whether
  the integer below is even or odd; a smaller fraction goes down and a larger one up.
  \<open>Math.round\<close>, the one rounding in the sources (the CSV rows of the second script),
  follows the same law on a non-negative finite number, without the scaling.
\<close>

theorem half_up_rounding:
  assumes "0 \<le> scalar"
  shows "round_scalar_half_up scalar = \<lfloor>scalar * 100 + 1 / 2\<rfloor>
       \<and> Math_round (Finite scalar) = Finite (of_int (half_up scalar))
       \<and> 0 \<le> round_scalar_half_up scalar
       \<and> \<bar>of_int (round_scalar_half_up scalar) - scalar * 100\<bar> \<le> 1 / 2
       \<and> (scalar * 100 - of_int \<lfloor>scalar * 100\<rfloor> = 1 / 2 \<longrightarrow>
            round_scalar_half_up scalar = \<lfloor>scalar * 100\<rfloor> + 1)
       \<and> (scalar * 100 - of_int \<lfloor>scalar * 100\<rfloor> < 1 / 2 \<longrightarrow>
            round_scalar_half_up scalar = \<lfloor>scalar * 100\<rfloor>)
       \<and> (scalar * 100 - of_int \<lfloor>scalar * 100\<rfloor> > 1 / 2 \<longrightarrow>
            round_scalar_half_up scalar = \<lfloor>scalar * 100\<rfloor> + 1)"
proof -
  define x where "x = scalar * 100"
  have x0: "0 \<le> x" using assms by (simp add: x_def)
  have r: "round_scalar_half_up scalar = \<lfloor>x + 1 / 2\<rfloor>"
    by (simp add: round_scalar_half_up_def half_up_def x_def)
  have nonneg: "0 \<le> \<lfloor>x + 1 / 2\<rfloor>" using x0 by simp
  have near: "\<bar>of_int \<lfloor>x + 1 / 2\<rfloor> - x\<bar> \<le> 1 / 2"
    by linarith
  have tie: "x - of_int \<lfloor>x\<rfloor> = 1 / 2 \<Longrightarrow> \<lfloor>x + 1 / 2\<rfloor> = \<lfloor>x\<rfloor> + 1"
    by linarith
  have below: "x - of_int \<lfloor>x\<rfloor> < 1 / 2 \<Longrightarrow> \<lfloor>x + 1 / 2\<rfloor> = \<lfloor>x\<rfloor>"
    by linarith
  have above: "x - of_int \<lfloor>x\<rfloor> > 1 / 2 \<Longrightarrow> \<lfloor>x + 1 / 2\<rfloor> = \<lfloor>x\<rfloor> + 1"
    by linarith
  have m: "Math_round (Finite scalar) = Finite (of_int (half_up scalar))"
    using assms by (simp add: half_up_def Let_def)
  show ?thesis
    unfolding r using nonneg near tie below above m by (simp add: x_def)
qed

text \<open>
  The theorem on the scalar \<open>12.345\<close>: \<open>1234.5\<close> rounds to 1235; and on
  \<open>0.025\<close>: \<open>2.5\<close> rounds to 3, where rounding to even would give 2.
\<close>

theorem half_up_rounding_witness:
  "round_scalar_half_up (12345 / 1000) = 1235
   \<and> \<lfloor>(12345 / 1000 :: rat) * 100\<rfloor> = 1234
   \<and> round_scalar_half_up (5 / 200) = 3"
proof -
  have f: "\<lfloor>(2469 / 2 :: rat)\<rfloor> = 1234"
    by (rule floor_unique) simp_all
  have g: "\<lfloor>(5 / 2 :: rat)\<rfloor> = 2"
    by (rule floor_unique) simp_all
  show ?thesis
    using half_up_rounding [of "12345 / 1000"] half_up_rounding [of "5 / 200"] f g
    by simp
qed

section \<open>C7: two items with the same date\<close>






section \<open>C8: the two scripts compared\<close>

lemma csv_loop_fst:
  assumes "\<forall>(chain, entry)\<in>set cs.
             split_first chain \<in> MAJOR_SUPERCHAIN_L2S \<longrightarrow> chain \<in> MAJOR_SUPERCHAIN_L2S"
  shows "fst (getTvlOnDate_csv_loop ts cs (tot, h)) = getTvlOnDate_loop ts cs tot"
  using assms
proof (induction cs arbitrary: tot h)
  case Nil
  show ?case by simp
next
  case (Cons x cs)
  obtain chain entry where x: "x = (chain, entry)" by (cases x)
  have iff: "chain \<in> MAJOR_SUPERCHAIN_L2S \<longleftrightarrow> split_first chain \<in> MAJOR_SUPERCHAIN_L2S"
    using Cons.prems x major_no_dash [of chain] by auto
  have rest: "\<forall>(chain, entry)\<in>set cs.
             split_first chain \<in> MAJOR_SUPERCHAIN_L2S \<longrightarrow> chain \<in> MAJOR_SUPERCHAIN_L2S"
    using Cons.prems by simp
  show ?case
    by (simp add: x iff Cons.IH [OF rest] split: option.split)
qed

lemma csv_loop_snd_True: "snd (getTvlOnDate_csv_loop ts cs (tot, True)) = True"
  by (induction cs arbitrary: tot) (auto split: option.split)

lemma csv_loop_snd_False:
  "snd (getTvlOnDate_csv_loop ts cs (tot, False)) = False \<Longrightarrow>
   fst (getTvlOnDate_csv_loop ts cs (tot, False)) = tot"
proof (induction cs arbitrary: tot)
  case Nil
  show ?case by simp
next
  case (Cons x cs)
  obtain chain entry where x: "x = (chain, entry)" by (cases x)
  show ?case
    using Cons.prems Cons.IH [of tot]
    by (auto simp: x csv_loop_snd_True split: if_splits option.splits)
qed

lemma getTvlOnDate_csv_Some:
  assumes "\<forall>(chain, entry)\<in>set (chainTvls data).
             split_first chain \<in> MAJOR_SUPERCHAIN_L2S \<longrightarrow> chain \<in> MAJOR_SUPERCHAIN_L2S"
    and "getTvlOnDate_csv data d \<noteq> None"
  shows "getTvlOnDate_csv data d = Some (getTvlOnDate data d)"
  using assms(2) csv_loop_fst [OF assms(1), of "targetTimestamp d" "Finite 0" False]
  by (auto simp: getTvlOnDate_csv_def getTvlOnDate_def split: prod.splits if_splits)

lemma getTvlOnDate_csv_None:
  assumes "\<forall>(chain, entry)\<in>set (chainTvls data).
             split_first chain \<in> MAJOR_SUPERCHAIN_L2S \<longrightarrow> chain \<in> MAJOR_SUPERCHAIN_L2S"
    and "getTvlOnDate_csv data d = None"
  shows "getTvlOnDate data d = Finite 0"
proof -
  have "snd (getTvlOnDate_csv_loop (targetTimestamp d) (chainTvls data) (Finite 0, False)) = False"
    using assms(2) by (auto simp: getTvlOnDate_csv_def split: prod.splits if_splits)
  then have "fst (getTvlOnDate_csv_loop (targetTimestamp d) (chainTvls data) (Finite 0, False)) = Finite 0"
    by (rule csv_loop_snd_False)
  then show ?thesis
    using csv_loop_fst [OF assms(1), of "targetTimestamp d" "Finite 0" False]
    by (simp add: getTvlOnDate_def)
qed

text \<open>
  C8, as amended. The two versions of \<open>calculateTrailingAverageTvl\<close> return the same
  number when (a) no key of the response has a prefix before \<open>-\<close> in
  \<open>MAJOR_SUPERCHAIN_L2S\<close> without being in it itself (so both scripts count the same
  chains), and (b) either every day of the window has data or none has. They differ
  otherwise: in the divisor when only some days have data, and in the chains counted
  when a key such as \<open>Base-staking\<close> is present.
\<close>

theorem scripts_agree_on_full_or_empty_window:
  assumes keys: "\<forall>(chain, entry)\<in>set (chainTvls data).
             split_first chain \<in> MAJOR_SUPERCHAIN_L2S \<longrightarrow> chain \<in> MAJOR_SUPERCHAIN_L2S"
    and days: "(\<forall>i<TRAILING_DAYS. getTvlOnDate_csv data (trailing_date Date_parse endDateStr i) \<noteq> None)
             \<or> (\<forall>i<TRAILING_DAYS. getTvlOnDate_csv data (trailing_date Date_parse endDateStr i) = None)"
  shows "calculateTrailingAverageTvl Date_parse data endDateStr =
         calculateTrailingAverageTvl_csv Date_parse data endDateStr"
  using days
proof
  assume all: "\<forall>i<TRAILING_DAYS. getTvlOnDate_csv data (trailing_date Date_parse endDateStr i) \<noteq> None"
  have "\<forall>i\<in>set [0..<TRAILING_DAYS].
          getTvlOnDate_csv data (trailing_date Date_parse endDateStr i) =
          Some (getTvlOnDate data (trailing_date Date_parse endDateStr i))"
    using all getTvlOnDate_csv_Some [OF keys] by simp
  then have "List.map_filter (\<lambda>i. getTvlOnDate_csv data (trailing_date Date_parse endDateStr i))
                   [0..<TRAILING_DAYS] =
             map (\<lambda>i. getTvlOnDate data (trailing_date Date_parse endDateStr i)) [0..<TRAILING_DAYS]"
    by (rule map_filter_all_Some)
  then show ?thesis
    by (simp add: trailing_average_index trailing_average_csv Let_def) (simp add: TRAILING_DAYS_def)
next
  assume none: "\<forall>i<TRAILING_DAYS. getTvlOnDate_csv data (trailing_date Date_parse endDateStr i) = None"
  have "\<forall>i\<in>set [0..<TRAILING_DAYS].
          getTvlOnDate_csv data (trailing_date Date_parse endDateStr i) = None"
    using none by simp
  then have csv: "List.map_filter (\<lambda>i. getTvlOnDate_csv data (trailing_date Date_parse endDateStr i))
                   [0..<TRAILING_DAYS] = []"
    by (rule map_filter_all_None)
  have "\<forall>x\<in>set (map (\<lambda>i. getTvlOnDate data (trailing_date Date_parse endDateStr i))
          [0..<TRAILING_DAYS]). x = Finite 0"
    using none getTvlOnDate_csv_None [OF keys] by simp
  then have "calculateTrailingAverageTvl Date_parse data endDateStr = Finite 0"
    by (simp only: trailing_average_index foldl_fadd_zeros fdiv_zero_7)
  then show ?thesis
    by (simp add: trailing_average_csv csv)
qed

text \<open>
  The theorem on \<open>tvl_full_week\<close> (data on all seven days, average 4) and on
  \<open>tvl_end_only\<close> for the window that ends on 2025-03-20 (no data, result 0): the
  value of the second script is the one \<open>node/index.ts\<close> computes.
\<close>

theorem scripts_agree_on_full_or_empty_window_witness:
  "calculateTrailingAverageTvl_csv Date_parse_metric tvl_full_week ''2025-06-12'' = Finite 4
   \<and> calculateTrailingAverageTvl_csv Date_parse_metric tvl_end_only ''2025-03-20'' = Finite 0"
proof
  show "calculateTrailingAverageTvl_csv Date_parse_metric tvl_full_week ''2025-06-12'' = Finite 4"
    using scripts_agree_on_full_or_empty_window
      [of tvl_full_week Date_parse_metric "''2025-06-12''"]
      full_week_keys full_week_days full_week_end_index
    by simp
  have keys: "\<forall>(chain, entry)\<in>set (chainTvls tvl_end_only).
      split_first chain \<in> MAJOR_SUPERCHAIN_L2S \<longrightarrow> chain \<in> MAJOR_SUPERCHAIN_L2S"
    by (simp add: tvl_end_only_def MAJOR_SUPERCHAIN_L2S_def)
  have days: "\<forall>i<TRAILING_DAYS.
      getTvlOnDate_csv tvl_end_only (trailing_date Date_parse_metric ''2025-03-20'' i) = None"
    unfolding all_less_TRAILING_DAYS
    by (simp add: script_eval tvl_end_only_def number_eval date_eval)
  show "calculateTrailingAverageTvl_csv Date_parse_metric tvl_end_only ''2025-03-20'' = Finite 0"
    using scripts_agree_on_full_or_empty_window
      [of tvl_end_only Date_parse_metric "''2025-03-20''"]
      keys days end_only_start_index
    by simp
qed

text \<open>
  C8 as stated fails. On \<open>tvl_end_only\<close> (one day with data) \<open>node/index.ts\<close> returns
  \<open>7 / 7 = 1\<close> and the second script \<open>7 / 1 = 7\<close>. On \<open>tvl_staking_only\<close>
  \<open>node/index.ts\<close> counts the key \<open>Base-staking\<close> and returns 1, the second script
  does not count it and returns 0.
\<close>

theorem scripts_equivalent_counterexample:
  "calculateTrailingAverageTvl Date_parse_metric tvl_end_only ''2025-06-12'' = Finite 1
   \<and> calculateTrailingAverageTvl_csv Date_parse_metric tvl_end_only ''2025-06-12'' = Finite 7
   \<and> calculateTrailingAverageTvl Date_parse_metric tvl_staking_only ''2025-06-12'' = Finite 1
   \<and> calculateTrailingAverageTvl_csv Date_parse_metric tvl_staking_only ''2025-06-12'' = Finite 0"
  by (simp only: end_only_end_index end_only_end_csv staking_only_end_index
      staking_only_end_csv simp_thms)

section \<open>C9: chain keys with a suffix\<close>





section \<open>C10: a failing project\<close>

lemma main_loop_entry:
  "main_loop Date_parse fetch projects results slug =
     (if slug \<in> snd ` set projects then
        Some (case process_project Date_parse fetch slug of
                Inl err \<Rightarrow> Message ''Error processing project''
              | Inr difference \<Rightarrow> Difference difference)
      else results slug)"
proof (induction projects arbitrary: results slug)
  case Nil
  show ?case by simp
next
  case (Cons p projects)
  obtain name s where p: "p = (name, s)" by (cases p)
  show ?case
    by (simp add: p Cons.IH split: sum.split)
qed

lemma main_csv_loop_entry:
  "fst (main_csv_loop Date_parse fetch projects (results_csv, csvRows)) slug =
     (if slug \<in> snd ` set projects then
        Some (case process_project_csv Date_parse fetch slug of
                Inl err \<Rightarrow> Message_csv ''Error processing project''
              | Inr (t_start, t_end, difference) \<Rightarrow> Summary t_start t_end difference)
      else results_csv slug)"
proof (induction projects arbitrary: results_csv csvRows slug)
  case Nil
  show ?case by simp
next
  case (Cons p projects)
  obtain name s where p: "p = (name, s)" by (cases p)
  show ?case
    by (simp add: p Cons.IH split: sum.split prod.split)
qed

lemma main_csv_loop_rows:
  "snd (main_csv_loop Date_parse fetch projects (results_csv, csvRows)) =
     csvRows @
     map (\<lambda>(name, s). case process_project_csv Date_parse fetch s of
            Inl err \<Rightarrow> ErrorRow name
          | Inr (t_start, t_end, difference) \<Rightarrow>
              Row name (Math_round t_start) (Math_round t_end) (Math_round difference))
       projects"
proof (induction projects arbitrary: results_csv csvRows)
  case Nil
  show ?case by simp
next
  case (Cons p projects)
  obtain name s where p: "p = (name, s)" by (cases p)
  show ?case
    by (simp add: p Cons.IH split: sum.split prod.split del: Math_round.simps)
qed

lemma main_dom: "dom (main Date_parse fetch) = snd ` set PROJECTS"
  unfolding main_def dom_def by (simp only: main_loop_entry) auto

lemma main_csv_dom: "dom (fst (main_csv Date_parse fetch)) = snd ` set PROJECTS_csv"
  unfolding main_csv_def dom_def by (simp only: main_csv_loop_entry) auto

lemma main_csv_rows: "length (snd (main_csv Date_parse fetch)) = Suc (length PROJECTS_csv)"
  unfolding main_csv_def by (simp only: main_csv_loop_rows) simp

lemma process_project_other:
  "slug \<noteq> failed \<Longrightarrow>
   process_project Date_parse (fetch(failed := outcome)) slug =
   process_project Date_parse fetch slug"
  by (simp add: process_project_def)

lemma process_project_csv_other:
  "slug \<noteq> failed \<Longrightarrow>
   process_project_csv Date_parse (fetch(failed := outcome)) slug =
   process_project_csv Date_parse fetch slug"
  by (simp add: process_project_csv_def)

text \<open>
  C10. After \<open>main\<close> has run over a list of projects, the entry of \<open>results\<close> for
  the slug of a listed project is decided by the \<open>try\<close> block of that project alone: it
  is the message \<open>Error processing project\<close> when the block threw, and the value the
  block computed otherwise; the entries of other slugs are as they were. In the second
  script the CSV rows are the earlier rows followed by one row per project, in order, an
  error row for a project whose block threw. The block throws exactly when the fetch
  throws or the processing does, which is when an access of \<open>getTvlOnDate\<close> throws on
  the response for one of the days of the two trailing windows; on a response of the
  declared interface the processing does not throw and the value is the difference of the
  two averages. So replacing the outcome of the fetch of one project by any other (an
  error, or a response on which the processing throws) changes no entry of another slug,
  and \<open>main\<close> always ends with an entry for every slug of \<open>PROJECTS\<close> (and a CSV row
  for every project, after the header): the batch is never cut short.
\<close>

theorem project_failure_is_isolated:
  "main_loop Date_parse fetch projects results slug =
     (if slug \<in> snd ` set projects then
        Some (case process_project Date_parse fetch slug of
                Inl err \<Rightarrow> Message ''Error processing project''
              | Inr difference \<Rightarrow> Difference difference)
      else results slug)
   \<and> fst (main_csv_loop Date_parse fetch projects (results_csv, csvRows)) slug =
     (if slug \<in> snd ` set projects then
        Some (case process_project_csv Date_parse fetch slug of
                Inl err \<Rightarrow> Message_csv ''Error processing project''
              | Inr (t_start, t_end, difference) \<Rightarrow> Summary t_start t_end difference)
      else results_csv slug)
   \<and> snd (main_csv_loop Date_parse fetch projects (results_csv, csvRows)) =
     csvRows @
     map (\<lambda>(name, s). case process_project_csv Date_parse fetch s of
            Inl err \<Rightarrow> ErrorRow name
          | Inr (t_start, t_end, difference) \<Rightarrow>
              Row name (Math_round t_start) (Math_round t_end) (Math_round difference))
       projects
   \<and> (isl (process_project Date_parse fetch slug) \<longleftrightarrow>
        (case fetch slug of
           Inl err \<Rightarrow> True
         | Inr data \<Rightarrow>
             window_throws counted_index Date_parse data METRIC_END_DATE
             \<or> window_throws counted_index Date_parse data METRIC_START_DATE))
   \<and> (isl (process_project_csv Date_parse fetch slug) \<longleftrightarrow>
        (case fetch slug of
           Inl err \<Rightarrow> True
         | Inr data \<Rightarrow>
             window_throws counted_csv Date_parse data METRIC_END_DATE
             \<or> window_throws counted_csv Date_parse data METRIC_START_DATE))
   \<and> (fetch slug = Inr (raw_of typed) \<longrightarrow>
        process_project Date_parse fetch slug =
          Inr (fsub (calculateTrailingAverageTvl Date_parse typed METRIC_END_DATE)
                    (calculateTrailingAverageTvl Date_parse typed METRIC_START_DATE))
      \<and> process_project_csv Date_parse fetch slug =
          Inr (calculateTrailingAverageTvl_csv Date_parse typed METRIC_START_DATE,
               calculateTrailingAverageTvl_csv Date_parse typed METRIC_END_DATE,
               fsub (calculateTrailingAverageTvl_csv Date_parse typed METRIC_END_DATE)
                    (calculateTrailingAverageTvl_csv Date_parse typed METRIC_START_DATE)))
   \<and> (slug \<noteq> failed \<longrightarrow>
        main_loop Date_parse (fetch(failed := outcome)) projects results slug =
        main_loop Date_parse fetch projects results slug
      \<and> fst (main_csv_loop Date_parse (fetch(failed := outcome)) projects (results_csv, csvRows))
          slug =
        fst (main_csv_loop Date_parse fetch projects (results_csv, csvRows)) slug)
   \<and> dom (main Date_parse fetch) = snd ` set PROJECTS
   \<and> dom (fst (main_csv Date_parse fetch)) = snd ` set PROJECTS_csv
   \<and> length (snd (main_csv Date_parse fetch)) = Suc (length PROJECTS_csv)"
proof (intro conjI impI)
  show "main_loop Date_parse fetch projects results slug =
     (if slug \<in> snd ` set projects then
        Some (case process_project Date_parse fetch slug of
                Inl err \<Rightarrow> Message ''Error processing project''
              | Inr difference \<Rightarrow> Difference difference)
      else results slug)"
    by (rule main_loop_entry)
  show "fst (main_csv_loop Date_parse fetch projects (results_csv, csvRows)) slug =
     (if slug \<in> snd ` set projects then
        Some (case process_project_csv Date_parse fetch slug of
                Inl err \<Rightarrow> Message_csv ''Error processing project''
              | Inr (t_start, t_end, difference) \<Rightarrow> Summary t_start t_end difference)
      else results_csv slug)"
    by (rule main_csv_loop_entry)
  show "snd (main_csv_loop Date_parse fetch projects (results_csv, csvRows)) =
     csvRows @
     map (\<lambda>(name, s). case process_project_csv Date_parse fetch s of
            Inl err \<Rightarrow> ErrorRow name
          | Inr (t_start, t_end, difference) \<Rightarrow>
              Row name (Math_round t_start) (Math_round t_end) (Math_round difference))
       projects"
    by (rule main_csv_loop_rows)
  show "isl (process_project Date_parse fetch slug) \<longleftrightarrow>
        (case fetch slug of
           Inl err \<Rightarrow> True
         | Inr data \<Rightarrow>
             window_throws counted_index Date_parse data METRIC_END_DATE
             \<or> window_throws counted_index Date_parse data METRIC_START_DATE)"
    by (rule process_project_throws)
  show "isl (process_project_csv Date_parse fetch slug) \<longleftrightarrow>
        (case fetch slug of
           Inl err \<Rightarrow> True
         | Inr data \<Rightarrow>
             window_throws counted_csv Date_parse data METRIC_END_DATE
             \<or> window_throws counted_csv Date_parse data METRIC_START_DATE)"
    by (rule process_project_csv_throws)
  show "dom (main Date_parse fetch) = snd ` set PROJECTS"
    by (rule main_dom)
  show "dom (fst (main_csv Date_parse fetch)) = snd ` set PROJECTS_csv"
    by (rule main_csv_dom)
  show "length (snd (main_csv Date_parse fetch)) = Suc (length PROJECTS_csv)"
    by (rule main_csv_rows)
next
  assume "fetch slug = Inr (raw_of typed)"
  then show "process_project Date_parse fetch slug =
          Inr (fsub (calculateTrailingAverageTvl Date_parse typed METRIC_END_DATE)
                    (calculateTrailingAverageTvl Date_parse typed METRIC_START_DATE))"
    and "process_project_csv Date_parse fetch slug =
          Inr (calculateTrailingAverageTvl_csv Date_parse typed METRIC_START_DATE,
               calculateTrailingAverageTvl_csv Date_parse typed METRIC_END_DATE,
               fsub (calculateTrailingAverageTvl_csv Date_parse typed METRIC_END_DATE)
                    (calculateTrailingAverageTvl_csv Date_parse typed METRIC_START_DATE))"
    by (rule process_project_of, rule process_project_csv_of)
next
  assume "slug \<noteq> failed"
  then show "main_loop Date_parse (fetch(failed := outcome)) projects results slug =
        main_loop Date_parse fetch projects results slug"
    and "fst (main_csv_loop Date_parse (fetch(failed := outcome)) projects (results_csv, csvRows))
          slug =
        fst (main_csv_loop Date_parse fetch projects (results_csv, csvRows)) slug"
    by (simp_all add: main_loop_entry main_csv_loop_entry process_project_other
        process_project_csv_other cong: if_cong)
qed

text \<open>
  The theorem on the projects Sushi, Thales, Silo and Exactly. The fetch of Sushi throws;
  the response for Silo is \<open>raw_without_tvl\<close>, on which the processing throws; the
  response for Exactly is \<open>raw_null_elsewhere\<close>, whose \<open>null\<close> is never read. Sushi
  and Silo get the message and an error row, Thales and Exactly their difference
  \<open>1 - 0\<close> and their row, and Thales has the same entry when every fetch succeeds with
  a response of the interface.
\<close>

theorem project_failure_is_isolated_witness:
  "main_loop Date_parse_metric
     ((\<lambda>slug. Inr (raw_of tvl_end_only))
        (''sushi'' := Inl (Error ''Not Found''), ''silo-finance'' := Inr raw_without_tvl,
         ''exactly'' := Inr raw_null_elsewhere))
     [(''Sushi'', ''sushi''), (''Thales'', ''thales''), (''Silo'', ''silo-finance''),
      (''Exactly'', ''exactly'')] Map.empty ''thales'' =
   Some (Difference (Finite 1))
   \<and> main_loop Date_parse_metric
     ((\<lambda>slug. Inr (raw_of tvl_end_only))
        (''sushi'' := Inl (Error ''Not Found''), ''silo-finance'' := Inr raw_without_tvl,
         ''exactly'' := Inr raw_null_elsewhere))
     [(''Sushi'', ''sushi''), (''Thales'', ''thales''), (''Silo'', ''silo-finance''),
      (''Exactly'', ''exactly'')] Map.empty ''sushi'' =
   Some (Message ''Error processing project'')
   \<and> main_loop Date_parse_metric
     ((\<lambda>slug. Inr (raw_of tvl_end_only))
        (''sushi'' := Inl (Error ''Not Found''), ''silo-finance'' := Inr raw_without_tvl,
         ''exactly'' := Inr raw_null_elsewhere))
     [(''Sushi'', ''sushi''), (''Thales'', ''thales''), (''Silo'', ''silo-finance''),
      (''Exactly'', ''exactly'')] Map.empty ''silo-finance'' =
   Some (Message ''Error processing project'')
   \<and> main_loop Date_parse_metric
     ((\<lambda>slug. Inr (raw_of tvl_end_only))
        (''sushi'' := Inl (Error ''Not Found''), ''silo-finance'' := Inr raw_without_tvl,
         ''exactly'' := Inr raw_null_elsewhere))
     [(''Sushi'', ''sushi''), (''Thales'', ''thales''), (''Silo'', ''silo-finance''),
      (''Exactly'', ''exactly'')] Map.empty ''exactly'' =
   Some (Difference (Finite 1))
   \<and> snd (main_csv_loop Date_parse_metric
     ((\<lambda>slug. Inr (raw_of tvl_end_only))
        (''sushi'' := Inl (Error ''Not Found''), ''silo-finance'' := Inr raw_without_tvl,
         ''exactly'' := Inr raw_null_elsewhere))
     [(''Sushi'', ''sushi''), (''Thales'', ''thales''), (''Silo'', ''silo-finance''),
      (''Exactly'', ''exactly'')] (Map.empty, [Header])) =
   [Header, ErrorRow ''Sushi'', Row ''Thales'' (Finite 0) (Finite 7) (Finite 7),
    ErrorRow ''Silo'', Row ''Exactly'' (Finite 0) (Finite 7) (Finite 7)]
   \<and> main_loop Date_parse_metric (\<lambda>slug. Inr (raw_of tvl_end_only))
     [(''Sushi'', ''sushi''), (''Thales'', ''thales''), (''Silo'', ''silo-finance''),
      (''Exactly'', ''exactly'')] Map.empty ''thales'' =
   Some (Difference (Finite 1))"
proof -
  let ?f = "\<lambda>slug::string. (Inr (raw_of tvl_end_only) :: error + raw_response)"
  let ?g = "?f(''sushi'' := Inl (Error ''Not Found''), ''silo-finance'' := Inr raw_without_tvl,
              ''exactly'' := Inr raw_null_elsewhere)"
  let ?ps = "[(''Sushi'', ''sushi''), (''Thales'', ''thales''), (''Silo'', ''silo-finance''),
              (''Exactly'', ''exactly'')]"
  note t = project_failure_is_isolated
    [where Date_parse = Date_parse_metric and fetch = ?g and projects = ?ps
      and results = Map.empty and slug = "''thales''" and results_csv = Map.empty
      and csvRows = "[Header]" and typed = tvl_end_only]
  note s = project_failure_is_isolated
    [where Date_parse = Date_parse_metric and fetch = ?g and projects = ?ps
      and results = Map.empty and slug = "''sushi''" and results_csv = Map.empty
      and csvRows = "[Header]"]
  note b = project_failure_is_isolated
    [where Date_parse = Date_parse_metric and fetch = ?g and projects = ?ps
      and results = Map.empty and slug = "''silo-finance''" and results_csv = Map.empty
      and csvRows = "[Header]"]
  note x = project_failure_is_isolated
    [where Date_parse = Date_parse_metric and fetch = ?g and projects = ?ps
      and results = Map.empty and slug = "''exactly''" and results_csv = Map.empty
      and csvRows = "[Header]"]
  note u = project_failure_is_isolated
    [where Date_parse = Date_parse_metric and fetch = ?f and projects = ?ps
      and results = Map.empty and slug = "''thales''" and results_csv = Map.empty
      and csvRows = "[Header]" and typed = tvl_end_only]
  have vals:
    "calculateTrailingAverageTvl Date_parse_metric tvl_end_only METRIC_END_DATE = Finite 1"
    "calculateTrailingAverageTvl Date_parse_metric tvl_end_only METRIC_START_DATE = Finite 0"
    "calculateTrailingAverageTvl_csv Date_parse_metric tvl_end_only METRIC_END_DATE = Finite 7"
    "calculateTrailingAverageTvl_csv Date_parse_metric tvl_end_only METRIC_START_DATE = Finite 0"
    by (simp_all only: METRIC_END_DATE_def METRIC_START_DATE_def end_only_end_index
        end_only_start_index end_only_end_csv end_only_start_csv)
  have raw_vals:
    "calculateTrailingAverageTvl_raw Date_parse_metric raw_null_elsewhere METRIC_END_DATE =
       Inr (Finite 1)"
    "calculateTrailingAverageTvl_raw Date_parse_metric raw_null_elsewhere METRIC_START_DATE =
       Inr (Finite 0)"
    "calculateTrailingAverageTvl_csv_raw Date_parse_metric raw_null_elsewhere METRIC_END_DATE =
       Inr (Finite 7)"
    "calculateTrailingAverageTvl_csv_raw Date_parse_metric raw_null_elsewhere METRIC_START_DATE =
       Inr (Finite 0)"
    by (simp_all only: METRIC_END_DATE_def METRIC_START_DATE_def null_elsewhere_end_index
        null_elsewhere_start_index null_elsewhere_end_csv null_elsewhere_start_csv)
  have thales: "process_project Date_parse_metric ?g ''thales'' = Inr (Finite 1)"
    using t [THEN conjunct2, THEN conjunct2, THEN conjunct2, THEN conjunct2, THEN conjunct2,
        THEN conjunct1]
    by (simp add: vals fsub_1_0)
  have thales_csv:
    "process_project_csv Date_parse_metric ?g ''thales'' = Inr (Finite 0, Finite 7, Finite 7)"
    using t [THEN conjunct2, THEN conjunct2, THEN conjunct2, THEN conjunct2, THEN conjunct2,
        THEN conjunct1]
    by (simp add: vals fsub_7_0)
  have "isl (process_project Date_parse_metric ?g ''sushi'')"
    using s [THEN conjunct2, THEN conjunct2, THEN conjunct2, THEN conjunct1] by simp
  then obtain e1 where sushi: "process_project Date_parse_metric ?g ''sushi'' = Inl e1"
    by (cases "process_project Date_parse_metric ?g ''sushi''") simp_all
  have "isl (process_project_csv Date_parse_metric ?g ''sushi'')"
    using s [THEN conjunct2, THEN conjunct2, THEN conjunct2, THEN conjunct2, THEN conjunct1]
    by simp
  then obtain e2 where sushi_csv: "process_project_csv Date_parse_metric ?g ''sushi'' = Inl e2"
    by (cases "process_project_csv Date_parse_metric ?g ''sushi''") simp_all
  have w1: "window_throws counted_index Date_parse_metric raw_without_tvl METRIC_END_DATE"
    unfolding window_throws_def upt_TRAILING_DAYS
    by (auto simp add: throws_def entry_throws_def counted_index_def split_first_def
        MAJOR_SUPERCHAIN_L2S_def raw_without_tvl_def)
  have w2: "window_throws counted_csv Date_parse_metric raw_without_tvl METRIC_END_DATE"
    unfolding window_throws_def upt_TRAILING_DAYS
    by (auto simp add: throws_def entry_throws_def counted_csv_def MAJOR_SUPERCHAIN_L2S_def
        raw_without_tvl_def)
  have "isl (process_project Date_parse_metric ?g ''silo-finance'')"
    using b [THEN conjunct2, THEN conjunct2, THEN conjunct2, THEN conjunct1] w1 by simp
  then obtain e3 where silo: "process_project Date_parse_metric ?g ''silo-finance'' = Inl e3"
    by (cases "process_project Date_parse_metric ?g ''silo-finance''") simp_all
  have "isl (process_project_csv Date_parse_metric ?g ''silo-finance'')"
    using b [THEN conjunct2, THEN conjunct2, THEN conjunct2, THEN conjunct2, THEN conjunct1] w2
    by simp
  then obtain e4 where
    silo_csv: "process_project_csv Date_parse_metric ?g ''silo-finance'' = Inl e4"
    by (cases "process_project_csv Date_parse_metric ?g ''silo-finance''") simp_all
  have exactly: "process_project Date_parse_metric ?g ''exactly'' = Inr (Finite 1)"
    by (simp add: process_project_def raw_vals fsub_1_0)
  have exactly_csv:
    "process_project_csv Date_parse_metric ?g ''exactly'' = Inr (Finite 0, Finite 7, Finite 7)"
    by (simp add: process_project_csv_def raw_vals fsub_7_0)
  have c1: "main_loop Date_parse_metric ?g ?ps Map.empty ''thales'' =
              Some (Difference (Finite 1))"
    using t [THEN conjunct1] by (simp add: thales)
  have c2: "main_loop Date_parse_metric ?g ?ps Map.empty ''sushi'' =
              Some (Message ''Error processing project'')"
    using s [THEN conjunct1] by (simp add: sushi)
  have c3: "main_loop Date_parse_metric ?g ?ps Map.empty ''silo-finance'' =
              Some (Message ''Error processing project'')"
    using b [THEN conjunct1] by (simp add: silo)
  have c4: "main_loop Date_parse_metric ?g ?ps Map.empty ''exactly'' =
              Some (Difference (Finite 1))"
    using x [THEN conjunct1] by (simp add: exactly)
  have c5: "snd (main_csv_loop Date_parse_metric ?g ?ps (Map.empty, [Header])) =
              [Header, ErrorRow ''Sushi'', Row ''Thales'' (Finite 0) (Finite 7) (Finite 7),
               ErrorRow ''Silo'', Row ''Exactly'' (Finite 0) (Finite 7) (Finite 7)]"
    using t [THEN conjunct2, THEN conjunct2, THEN conjunct1]
    by (simp add: thales_csv sushi_csv silo_csv exactly_csv Math_round_7 Math_round_0
        del: Math_round.simps)
  have "process_project Date_parse_metric ?f ''thales'' = Inr (Finite 1)"
    using u [THEN conjunct2, THEN conjunct2, THEN conjunct2, THEN conjunct2, THEN conjunct2,
        THEN conjunct1]
    by (simp add: vals fsub_1_0)
  then have c6: "main_loop Date_parse_metric ?f ?ps Map.empty ''thales'' =
              Some (Difference (Finite 1))"
    using u [THEN conjunct1] by simp
  from c1 c2 c3 c4 c5 c6 show ?thesis by (intro conjI)
qed

end
